theory Spec2Isabelle
  imports Complex_Main "HOL-Library.Product_Lexorder" "HOL-Library.Log_Nat"
begin

section \<open>Data model (budget/models.py)\<close>

text \<open>
  The Django models are rows of tables.  A \<open>DecimalField(max_digits=12, decimal_places=2)\<close>
  holds an exact decimal with two places: it is modelled by its number of cents, an
  \<open>int\<close>, so that \<open>Decimal\<close> addition and subtraction are integer addition and
  subtraction.  Foreign keys are the primary key of the row they point to.  The time
  stamps \<open>criado_em\<close> and \<open>atualizado_em\<close> are left out: no function below reads them.
  A date is the triple (year, month, day), ordered lexicographically.
\<close>

type_synonym date = "nat \<times> nat \<times> nat"

definition year :: "date \<Rightarrow> nat" where
  "year dt = fst dt"

definition month :: "date \<Rightarrow> nat" where
  "month dt = fst (snd dt)"

record conta =
  conta_id :: nat
  conta_usuario :: nat
  conta_nome :: string
  conta_tipo :: string
  saldo :: int
  banco :: string
  conta_cor :: string
  ativo :: bool

record categoria =
  categoria_id :: nat
  categoria_usuario :: nat
  categoria_nome :: string
  categoria_tipo :: string
  icone :: string
  categoria_cor :: string

record transacao =
  transacao_id :: nat
  transacao_usuario :: nat
  transacao_conta :: nat
  transacao_categoria :: "nat option"
  descricao :: string
  valor :: int
  tipo :: string
  data :: date
  observacoes :: string
  recorrente :: bool

record orcamento =
  orcamento_id :: nat
  orcamento_usuario :: nat
  orcamento_categoria :: nat
  limite :: int
  mes :: nat
  ano :: nat

text \<open>
  The database: one list of rows per table, and the next value of the primary-key
  sequence of the transaction table.
\<close>

record db =
  contas :: "conta list"
  categorias :: "categoria list"
  transacoes :: "transacao list"
  orcamentos :: "orcamento list"
  transacao_seq :: nat

text \<open>The exceptions that the modelled code can meet.\<close>

datatype error =
    DoesNotExist
  | MultipleObjectsReturned
  | PermissionDenied
  | InvalidOperation
  | TypeError
  | ValueError
  | IntegrityError
  | ValidationError
  | DatabaseError
  | ZeroDivisionError

section \<open>The object-relational layer, as the views use it\<close>

text \<open>
  \<open>Model.objects.get(...)\<close> returns a fresh object holding a copy of the row: changing
  the object changes no row until \<open>save()\<close> writes it back, and two objects read from
  the same row do not see each other's changes.  An object is therefore a record value,
  and every write takes the database and returns the new one.  A write that raises
  returns the error together with the database as it stands at that point.
\<close>

definition fits_12_2 :: "int \<Rightarrow> bool" where
  \<comment> \<open>\<open>max_digits=12, decimal_places=2\<close>: at most twelve digits of cents\<close>
  "fits_12_2 v = (\<bar>v\<bar> < 1000000000000)"

definition Conta_get :: "db \<Rightarrow> nat \<Rightarrow> nat \<Rightarrow> error + conta" where
  \<comment> \<open>\<open>Conta.objects.get(id=i, usuario=u)\<close>\<close>
  "Conta_get d i u =
     (case filter (\<lambda>c. conta_id c = i \<and> conta_usuario c = u) (contas d) of
        [] \<Rightarrow> Inl DoesNotExist
      | [c] \<Rightarrow> Inr c
      | _ \<Rightarrow> Inl MultipleObjectsReturned)"

definition Conta_save :: "db \<Rightarrow> conta \<Rightarrow> (error + unit) \<times> db" where
  \<comment> \<open>\<open>conta.save()\<close>: every column of the row with this primary key is written;
      a row that does not exist is inserted\<close>
  "Conta_save d c =
     (if \<not> fits_12_2 (saldo c) then (Inl InvalidOperation, d)
      else if \<exists>x \<in> set (contas d). conta_id x = conta_id c
      then (Inr (), d\<lparr>contas := map (\<lambda>x. if conta_id x = conta_id c then c else x) (contas d)\<rparr>)
      else (Inr (), d\<lparr>contas := contas d @ [c]\<rparr>))"

definition Sum_agg :: "int list \<Rightarrow> int option" where
  \<comment> \<open>\<open>aggregate(Sum(...))\<close>: \<open>None\<close> over no rows\<close>
  "Sum_agg xs = (if xs = [] then None else Some (sum_list xs))"

definition or_zero :: "int option \<Rightarrow> int" where
  \<comment> \<open>\<open>x or Decimal('0')\<close>: \<open>None\<close> and zero are both falsy\<close>
  "or_zero x = (case x of None \<Rightarrow> 0 | Some v \<Rightarrow> v)"

section \<open>Requests and responses (budget/views.py)\<close>

text \<open>
  A form field of \<open>request.POST\<close> is absent, present but not parsable as the value the
  view needs, or a value.  The views are modelled below \<open>@login_required\<close>:
  \<open>req_user\<close> is the authenticated user.
\<close>

datatype 'a field = Absent | Malformed | Val 'a

record form =
  f_conta :: "nat field"
  f_categoria :: "nat field"
  f_descricao :: "string option"
  f_valor :: "int field"
  f_tipo :: "string option"
  f_data :: "date field"
  f_observacoes :: "string option"
  f_recorrente :: "string option"

record request =
  req_method :: string
  req_user :: nat
  req_POST :: form

datatype message = Msg_success | Msg_error error

datatype response = Redirect string | Render string

subsection \<open>Accounts: soft delete, and the dashboard total\<close>

definition conta_deletar :: "db \<Rightarrow> request \<Rightarrow> nat \<Rightarrow> db \<times> message list \<times> response" where
  "conta_deletar d request i =
     (if req_method request = ''POST'' then
        (case Conta_get d i (req_user request) of
           Inl e \<Rightarrow> (d, [Msg_error e], Redirect ''contas'')
         | Inr conta \<Rightarrow>
             (case Conta_save d (conta\<lparr>ativo := False\<rparr>) of
                (Inl e, d') \<Rightarrow> (d', [Msg_error e], Redirect ''contas'')
              | (Inr _, d') \<Rightarrow> (d', [Msg_success], Redirect ''contas'')))
      else (d, [], Redirect ''contas''))"

definition saldo_total :: "db \<Rightarrow> nat \<Rightarrow> int" where
  \<comment> \<open>the dashboard's \<open>saldo_total\<close>: the balances of the user's active accounts\<close>
  "saldo_total d u =
     or_zero (Sum_agg (map saldo (filter (\<lambda>c. conta_usuario c = u \<and> ativo c) (contas d))))"

section \<open>Numbers of the reporting code\<close>

text \<open>
  A \<open>Decimal\<close> is the rational number it denotes, and \<open>Decimal\<close> division is exact
  division that raises on a zero divisor.

  A \<open>float\<close> is the rational number it denotes as well, but every operation on floats
  rounds: the result is the binary64 number nearest to the exact result, a tie going to
  the even mantissa.  \<open>py_float\<close> is that rounding, so \<open>float(x)\<close> of a \<open>Decimal\<close>
  is \<open>py_float x\<close>, and the sum, difference, product and quotient of two floats are
  \<open>py_float\<close> of the exact ones.  A binary64 number has a mantissa of 53 bits: for
  \<open>x\<close> with \<open>2 ^ e \<le> |x| < 2 ^ (e + 1)\<close> the candidates are the multiples of
  \<open>2 ^ (e - 52)\<close>.  Overflow and subnormal numbers are not modelled; amounts of twelve
  digits, their quotients and their sums are far from both.
\<close>

definition dec :: "int \<Rightarrow> rat" where
  \<comment> \<open>the value of an amount held in cents\<close>
  "dec c = of_int c / 100"

definition py_div :: "rat \<Rightarrow> rat \<Rightarrow> error + rat" where
  \<comment> \<open>division of a \<open>Decimal\<close>\<close>
  "py_div a b = (if b = 0 then Inl ZeroDivisionError else Inr (a / b))"

definition expoente :: "rat \<Rightarrow> int" where
  \<comment> \<open>for \<open>x \<noteq> 0\<close>, the \<open>e\<close> with \<open>2 ^ e \<le> |x| < 2 ^ (e + 1)\<close>: the difference of
      the bit lengths of numerator and denominator, or one less\<close>
  "expoente x =
     (let e = bitlen (fst (quotient_of \<bar>x\<bar>)) - bitlen (snd (quotient_of \<bar>x\<bar>))
      in if 2 powi e \<le> \<bar>x\<bar> then e else e - 1)"

definition half_even :: "rat \<Rightarrow> int" where
  \<comment> \<open>the nearest integer, a tie to the even one\<close>
  "half_even y =
     (let f = \<lfloor>y\<rfloor>; r = y - of_int f
      in if r < 1 / 2 then f else if 1 / 2 < r then f + 1
         else if even f then f else f + 1)"

definition py_float :: "rat \<Rightarrow> rat" where
  \<comment> \<open>the binary64 number nearest to \<open>x\<close>\<close>
  "py_float x =
     (if x = 0 then 0
      else let e = expoente x - 52
           in sgn x * of_int (half_even (\<bar>x\<bar> / 2 powi e)) * 2 powi e)"


definition fmul :: "rat \<Rightarrow> rat \<Rightarrow> rat" where
  \<comment> \<open>\<open>a * b\<close> on floats\<close>
  "fmul a b = py_float (a * b)"

definition fdiv :: "rat \<Rightarrow> rat \<Rightarrow> error + rat" where
  \<comment> \<open>\<open>a / b\<close> on floats\<close>
  "fdiv a b = (if b = 0 then Inl ZeroDivisionError else Inr (py_float (a / b)))"

definition py_round :: "rat \<Rightarrow> nat \<Rightarrow> rat" where
  \<comment> \<open>\<open>round(x, n)\<close> of a float: the value of \<open>x\<close> is rounded to \<open>n\<close> decimals,
      a tie to the even one, and the float nearest to that decimal is returned\<close>
  "py_round x n = py_float (of_int (half_even (x * 10 ^ n)) / 10 ^ n)"

definition soma_sequencial :: "rat list \<Rightarrow> rat" where
  \<comment> \<open>\<open>sum(xs)\<close> of floats as Python up to 3.11 computes it: from 0, one rounded
      addition per element, left to right\<close>
  "soma_sequencial xs = foldl (\<lambda>acc v. py_float (acc + v)) 0 xs"

definition soma_compensada :: "rat list \<Rightarrow> rat" where
  \<comment> \<open>\<open>sum(xs)\<close> of floats as Python from 3.12 on computes it: the rounded additions of
      \<open>soma_sequencial\<close>, the rounding error of each collected in \<open>c\<close>, which is added
      at the end\<close>
  "soma_compensada xs =
     (let (s, c) = foldl (\<lambda>(s, c) x.
            let t = py_float (s + x)
            in (t, py_float (c + (if \<bar>x\<bar> \<le> \<bar>s\<bar> then py_float (py_float (s - t) + x)
                                  else py_float (py_float (x - t) + s)))))
          (0, 0) xs
      in if c \<noteq> 0 then py_float (s + c) else s)"

definition Categoria_of :: "db \<Rightarrow> nat \<Rightarrow> error + categoria" where
  \<comment> \<open>following a foreign key to its category row\<close>
  "Categoria_of d i =
     (case filter (\<lambda>c. categoria_id c = i) (categorias d) of
        [] \<Rightarrow> Inl DoesNotExist
      | c # _ \<Rightarrow> Inr c)"

section \<open>Budget notifications (budget/notifications.py)\<close>

record alerta =
  alerta_tipo :: string
  nivel :: string
  alerta_orcamento_id :: nat
  alerta_categoria :: string
  percentual :: rat

text \<open>
  The keys \<open>icone\<close>, \<open>titulo\<close> and \<open>mensagem\<close> of an alert are display text built from
  the same values and are not modelled.  \<open>BudgetNotificationSystem(usuario)\<close> reads
  \<open>date.today()\<close> once: the object is the pair of the user and that date.
\<close>

record notification_system =
  ns_usuario :: nat
  ns_hoje :: date

definition orcamentos_do_mes :: "db \<Rightarrow> nat \<Rightarrow> date \<Rightarrow> orcamento list" where
  \<comment> \<open>\<open>Orcamento.objects.filter(usuario=..., mes=hoje.month, ano=hoje.year)\<close>\<close>
  "orcamentos_do_mes d u hoje =
     filter (\<lambda>orc. orcamento_usuario orc = u \<and> mes orc = month hoje \<and> ano orc = year hoje)
       (orcamentos d)"

definition gasto_rows :: "db \<Rightarrow> nat \<Rightarrow> orcamento \<Rightarrow> transacao list" where
  \<comment> \<open>the expense rows of the budget's category in the budget's month and year\<close>
  "gasto_rows d u orc =
     filter (\<lambda>t. transacao_usuario t = u
                \<and> transacao_categoria t = Some (orcamento_categoria orc)
                \<and> tipo t = ''despesa''
                \<and> month (data t) = mes orc \<and> year (data t) = ano orc)
       (transacoes d)"

definition calcular_gasto :: "db \<Rightarrow> notification_system \<Rightarrow> orcamento \<Rightarrow> int" where
  "calcular_gasto d self orc = or_zero (Sum_agg (map valor (gasto_rows d (ns_usuario self) orc)))"

definition criar_alerta :: "db \<Rightarrow> orcamento \<Rightarrow> int \<Rightarrow> rat \<Rightarrow> error + alerta option" where
  "criar_alerta d orc gasto pct =
     (if pct \<ge> 100 then
        (case Categoria_of d (orcamento_categoria orc) of
           Inl e \<Rightarrow> Inl e
         | Inr cat \<Rightarrow> Inr (Some \<lparr>alerta_tipo = ''danger'', nivel = ''critico'',
             alerta_orcamento_id = orcamento_id orc, alerta_categoria = categoria_nome cat,
             percentual = pct\<rparr>))
      else if pct \<ge> 90 then
        (case Categoria_of d (orcamento_categoria orc) of
           Inl e \<Rightarrow> Inl e
         | Inr cat \<Rightarrow> Inr (Some \<lparr>alerta_tipo = ''warning'', nivel = ''alto'',
             alerta_orcamento_id = orcamento_id orc, alerta_categoria = categoria_nome cat,
             percentual = pct\<rparr>))
      else if pct \<ge> 75 then
        (case Categoria_of d (orcamento_categoria orc) of
           Inl e \<Rightarrow> Inl e
         | Inr cat \<Rightarrow> Inr (Some \<lparr>alerta_tipo = ''info'', nivel = ''medio'',
             alerta_orcamento_id = orcamento_id orc, alerta_categoria = categoria_nome cat,
             percentual = pct\<rparr>))
      else Inr None)"

definition percentual_alerta :: "int \<Rightarrow> int \<Rightarrow> error + rat" where
  \<comment> \<open>\<open>(gasto / orc.limite * 100) if orc.limite > 0 else 0\<close>\<close>
  "percentual_alerta gasto lmt =
     (if lmt > 0 then
        (case py_div (dec gasto) (dec lmt) of Inl e \<Rightarrow> Inl e | Inr q \<Rightarrow> Inr (q * 100))
      else Inr 0)"

fun alertas_loop :: "db \<Rightarrow> notification_system \<Rightarrow> orcamento list \<Rightarrow> error + alerta list" where
  "alertas_loop d self [] = Inr []"
| "alertas_loop d self (orc # orcs) =
     (let gasto = calcular_gasto d self orc in
      case percentual_alerta gasto (limite orc) of
        Inl e \<Rightarrow> Inl e
      | Inr pct \<Rightarrow>
          (case criar_alerta d orc gasto pct of
             Inl e \<Rightarrow> Inl e
           | Inr alerta \<Rightarrow>
               (case alertas_loop d self orcs of
                  Inl e \<Rightarrow> Inl e
                | Inr rest \<Rightarrow> Inr (case alerta of None \<Rightarrow> rest | Some a \<Rightarrow> a # rest))))"

definition get_alertas :: "db \<Rightarrow> notification_system \<Rightarrow> error + alerta list" where
  "get_alertas d self = alertas_loop d self (orcamentos_do_mes d (ns_usuario self) (ns_hoje self))"

record contagem =
  total :: nat
  criticos :: nat
  altos :: nat
  medios :: nat

definition contar_alertas :: "db \<Rightarrow> notification_system \<Rightarrow> error + contagem" where
  "contar_alertas d self =
     (case get_alertas d self of
        Inl e \<Rightarrow> Inl e
      | Inr alertas \<Rightarrow> Inr \<lparr>total = length alertas,
          criticos = length (filter (\<lambda>a. nivel a = ''critico'') alertas),
          altos = length (filter (\<lambda>a. nivel a = ''alto'') alertas),
          medios = length (filter (\<lambda>a. nivel a = ''medio'') alertas)\<rparr>)"

definition percentual_spec :: "db \<Rightarrow> nat \<Rightarrow> orcamento \<Rightarrow> rat" where
  \<comment> \<open>the spec's percentage of a budget: spent / limit * 100, and 0 without a positive limit\<close>
  "percentual_spec d u orc =
     (if limite orc > 0
      then of_int (sum_list (map valor (gasto_rows d u orc))) / of_int (limite orc) * 100
      else 0)"

definition nivel_spec :: "rat \<Rightarrow> string option" where
  \<comment> \<open>the spec's table of alert levels, one line per row\<close>
  "nivel_spec pct =
     (if 100 \<le> pct then Some ''critico''
      else if 90 \<le> pct \<and> pct < 100 then Some ''alto''
      else if 75 \<le> pct \<and> pct < 90 then Some ''medio''
      else None)"

section \<open>Financial reports (budget/analytics.py)\<close>

text \<open>
  A \<open>FinancialAnalytics\<close> object holds the user and the date window.  The functions that
  read \<open>date.today()\<close> take the date as \<open>hoje\<close>; the one that subtracts a number of
  days from it takes Python's \<open>date - timedelta(days=n)\<close> as \<open>minus_days\<close>.
\<close>

record analytics =
  an_usuario :: nat
  data_inicio :: date
  data_fim :: date




record performance =
  perf_categoria :: string
  perf_icone :: string
  perf_limite :: rat
  perf_gasto :: rat
  disponivel :: rat
  perf_percentual :: rat
  status :: string

definition status_orcamento :: "rat \<Rightarrow> string" where
  "status_orcamento pct =
     (if pct < 70 then ''normal''
      else if pct < 90 then ''atencao''
      else if pct < 100 then ''critico''
      else ''excedido'')"

definition percentual_float :: "int \<Rightarrow> int \<Rightarrow> error + rat" where
  \<comment> \<open>\<open>(float(gasto) / float(orc.limite)) * 100 if orc.limite > 0 else 0\<close>\<close>
  "percentual_float gasto lmt =
     (if lmt > 0 then
        (case fdiv (py_float (dec gasto)) (py_float (dec lmt)) of
           Inl e \<Rightarrow> Inl e
         | Inr q \<Rightarrow> Inr (fmul q 100))
      else Inr 0)"

fun performance_loop :: "db \<Rightarrow> analytics \<Rightarrow> orcamento list \<Rightarrow> error + performance list" where
  "performance_loop d self [] = Inr []"
| "performance_loop d self (orc # orcs) =
     (let gasto = or_zero (Sum_agg (map valor (gasto_rows d (an_usuario self) orc))) in
      case percentual_float gasto (limite orc) of
        Inl e \<Rightarrow> Inl e
      | Inr pct \<Rightarrow>
          (case Categoria_of d (orcamento_categoria orc) of
             Inl e \<Rightarrow> Inl e
           | Inr cat \<Rightarrow>
               (case performance_loop d self orcs of
                  Inl e \<Rightarrow> Inl e
                | Inr rest \<Rightarrow> Inr
                    (\<lparr>perf_categoria = categoria_nome cat,
                      perf_icone = icone cat,
                      perf_limite = py_float (dec (limite orc)),
                      perf_gasto = py_float (dec gasto),
                      disponivel = py_float (dec (limite orc - gasto)),
                      perf_percentual = py_round pct 2,
                      status = status_orcamento pct\<rparr> # rest))))"

definition orcamento_performance :: "db \<Rightarrow> analytics \<Rightarrow> date \<Rightarrow> error + performance list" where
  "orcamento_performance d self hoje =
     performance_loop d self (orcamentos_do_mes d (an_usuario self) hoje)"

definition percentual_binario :: "db \<Rightarrow> nat \<Rightarrow> orcamento \<Rightarrow> rat" where
  \<comment> \<open>the percentage of a budget as binary floating point gives it: spent and limit
      converted to floats, divided, and multiplied by 100, each step rounded; 0 without a
      positive limit\<close>
  "percentual_binario d u orc =
     (if limite orc > 0
      then py_float (py_float
             (py_float (dec (sum_list (map valor (gasto_rows d u orc))))
                / py_float (dec (limite orc))) * 100)
      else 0)"







definition variacao_float :: "rat \<Rightarrow> rat \<Rightarrow> rat" where
  \<comment> \<open>the relative change, in percent, from \<open>m1\<close> to \<open>m2\<close> as binary floating
      point gives it: difference, quotient and product each rounded\<close>
  "variacao_float m1 m2 = py_float (py_float (py_float (m2 - m1) / m1) * 100)"

section \<open>Transactions in the object-relational layer\<close>

text \<open>
  The fields of a transaction object before it is written: the views assign whatever the
  form holds, and \<open>save()\<close> or \<open>create()\<close> is where a missing or unparsable value
  raises.  Preparing the column values comes first (an amount of more than twelve
  digits, a date that does not parse), the \<open>NOT NULL\<close> constraints of the table after.
\<close>

record transacao_fields =
  tf_usuario :: nat
  tf_conta :: nat
  tf_categoria :: "nat option"
  tf_descricao :: "string option"
  tf_valor :: int
  tf_tipo :: "string option"
  tf_data :: "date field"
  tf_observacoes :: string
  tf_recorrente :: bool

definition prep_transacao :: "nat \<Rightarrow> transacao_fields \<Rightarrow> error + transacao" where
  "prep_transacao i f =
     (if \<not> fits_12_2 (tf_valor f) then Inl InvalidOperation
      else case tf_data f of
        Malformed \<Rightarrow> Inl ValidationError
      | Absent \<Rightarrow> Inl IntegrityError
      | Val dt \<Rightarrow>
          (case tf_descricao f of
             None \<Rightarrow> Inl IntegrityError
           | Some desc \<Rightarrow>
               (case tf_tipo f of
                  None \<Rightarrow> Inl IntegrityError
                | Some tp \<Rightarrow> Inr \<lparr>transacao_id = i, transacao_usuario = tf_usuario f,
                    transacao_conta = tf_conta f, transacao_categoria = tf_categoria f,
                    descricao = desc, valor = tf_valor f, tipo = tp, data = dt,
                    observacoes = tf_observacoes f, recorrente = tf_recorrente f\<rparr>)))"

definition Transacao_create :: "db \<Rightarrow> transacao_fields \<Rightarrow> (error + transacao) \<times> db" where
  \<comment> \<open>\<open>Transacao.objects.create(...)\<close>: the new row takes the next key of the sequence\<close>
  "Transacao_create d f =
     (case prep_transacao (transacao_seq d) f of
        Inl e \<Rightarrow> (Inl e, d)
      | Inr t \<Rightarrow> (Inr t, d\<lparr>transacoes := transacoes d @ [t],
                               transacao_seq := Suc (transacao_seq d)\<rparr>))"

definition Transacao_save :: "db \<Rightarrow> nat \<Rightarrow> transacao_fields \<Rightarrow> (error + transacao) \<times> db" where
  \<comment> \<open>\<open>transacao.save()\<close> of an object read from the row with key \<open>i\<close>\<close>
  "Transacao_save d i f =
     (case prep_transacao i f of
        Inl e \<Rightarrow> (Inl e, d)
      | Inr t \<Rightarrow> (Inr t, d\<lparr>transacoes :=
                     map (\<lambda>x. if transacao_id x = i then t else x) (transacoes d)\<rparr>))"

definition Transacao_delete :: "db \<Rightarrow> transacao \<Rightarrow> db" where
  "Transacao_delete d t =
     d\<lparr>transacoes := filter (\<lambda>x. transacao_id x \<noteq> transacao_id t) (transacoes d)\<rparr>"

definition Transacao_get :: "db \<Rightarrow> nat \<Rightarrow> nat \<Rightarrow> error + transacao" where
  \<comment> \<open>\<open>Transacao.objects.get(id=i, usuario=u)\<close>\<close>
  "Transacao_get d i u =
     (case filter (\<lambda>t. transacao_id t = i \<and> transacao_usuario t = u) (transacoes d) of
        [] \<Rightarrow> Inl DoesNotExist
      | [t] \<Rightarrow> Inr t
      | _ \<Rightarrow> Inl MultipleObjectsReturned)"

definition Categoria_get :: "db \<Rightarrow> nat \<Rightarrow> nat \<Rightarrow> error + categoria" where
  \<comment> \<open>\<open>Categoria.objects.get(id=i, usuario=u)\<close>\<close>
  "Categoria_get d i u =
     (case filter (\<lambda>c. categoria_id c = i \<and> categoria_usuario c = u) (categorias d) of
        [] \<Rightarrow> Inl DoesNotExist
      | [c] \<Rightarrow> Inr c
      | _ \<Rightarrow> Inl MultipleObjectsReturned)"

definition Conta_of :: "db \<Rightarrow> nat \<Rightarrow> error + conta" where
  \<comment> \<open>\<open>transacao.conta\<close>, read from the database on first use\<close>
  "Conta_of d i =
     (case filter (\<lambda>c. conta_id c = i) (contas d) of
        [] \<Rightarrow> Inl DoesNotExist
      | c # _ \<Rightarrow> Inr c)"

definition Conta_save_saldo :: "db \<Rightarrow> conta \<Rightarrow> (error + unit) \<times> db" where
  \<comment> \<open>\<open>conta.save(update_fields=["saldo", "atualizado_em"])\<close>: only the balance column
      of the row is written, and a row that does not exist is an error\<close>
  "Conta_save_saldo d c =
     (if \<not> fits_12_2 (saldo c) then (Inl InvalidOperation, d)
      else if \<exists>x \<in> set (contas d). conta_id x = conta_id c
      then (Inr (), d\<lparr>contas :=
              map (\<lambda>x. if conta_id x = conta_id c then x\<lparr>saldo := saldo c\<rparr> else x) (contas d)\<rparr>)
      else (Inl DatabaseError, d))"

definition atomic :: "(db \<Rightarrow> (error + 'a) \<times> db) \<Rightarrow> db \<Rightarrow> (error + 'a) \<times> db" where
  \<comment> \<open>\<open>with transaction.atomic():\<close> an exception leaving the block undoes its writes\<close>
  "atomic body d =
     (case body d of
        (Inl e, _) \<Rightarrow> (Inl e, d)
      | (Inr x, d') \<Rightarrow> (Inr x, d'))"

section \<open>The transaction views of the site (budget/views.py)\<close>

definition get_conta_field :: "db \<Rightarrow> nat field \<Rightarrow> nat \<Rightarrow> error + conta" where
  \<comment> \<open>\<open>Conta.objects.get(id=request.POST.get('conta'), usuario=request.user)\<close>\<close>
  "get_conta_field d f u =
     (case f of Absent \<Rightarrow> Inl DoesNotExist | Malformed \<Rightarrow> Inl ValueError
      | Val i \<Rightarrow> Conta_get d i u)"

definition get_categoria_field :: "db \<Rightarrow> nat field \<Rightarrow> nat \<Rightarrow> error + categoria" where
  "get_categoria_field d f u =
     (case f of Absent \<Rightarrow> Inl DoesNotExist | Malformed \<Rightarrow> Inl ValueError
      | Val i \<Rightarrow> Categoria_get d i u)"

definition Decimal :: "int field \<Rightarrow> error + int" where
  \<comment> \<open>\<open>Decimal(request.POST.get('valor'))\<close>; the amounts a form can carry are taken
      at the scale of the column, two decimal places\<close>
  "Decimal f =
     (case f of Absent \<Rightarrow> Inl TypeError | Malformed \<Rightarrow> Inl InvalidOperation
      | Val v \<Rightarrow> Inr v)"

definition form_fields :: "request \<Rightarrow> nat \<Rightarrow> nat \<Rightarrow> int \<Rightarrow> transacao_fields" where
  \<comment> \<open>the values both form views give to the transaction\<close>
  "form_fields request conta_key categoria_key v =
     \<lparr>tf_usuario = req_user request, tf_conta = conta_key, tf_categoria = Some categoria_key,
      tf_descricao = f_descricao (req_POST request), tf_valor = v,
      tf_tipo = f_tipo (req_POST request), tf_data = f_data (req_POST request),
      tf_observacoes = (case f_observacoes (req_POST request) of None \<Rightarrow> [] | Some s \<Rightarrow> s),
      tf_recorrente = (f_recorrente (req_POST request) = Some ''on'')\<rparr>"

definition transacao_criar :: "db \<Rightarrow> request \<Rightarrow> db \<times> message list \<times> response" where
  "transacao_criar d request =
     (if req_method request = ''POST'' then
        (case get_conta_field d (f_conta (req_POST request)) (req_user request) of
           Inl e \<Rightarrow> (d, [Msg_error e], Render ''budget/transacao_form.html'')
         | Inr conta \<Rightarrow>
        (case get_categoria_field d (f_categoria (req_POST request)) (req_user request) of
           Inl e \<Rightarrow> (d, [Msg_error e], Render ''budget/transacao_form.html'')
         | Inr categoria \<Rightarrow>
        (case Decimal (f_valor (req_POST request)) of
           Inl e \<Rightarrow> (d, [Msg_error e], Render ''budget/transacao_form.html'')
         | Inr v \<Rightarrow>
        (case Transacao_create d (form_fields request (conta_id conta) (categoria_id categoria) v) of
           (Inl e, d1) \<Rightarrow> (d1, [Msg_error e], Render ''budget/transacao_form.html'')
         | (Inr transacao, d1) \<Rightarrow>
             (let conta1 = (if tipo transacao = ''receita''
                            then conta\<lparr>saldo := saldo conta + valor transacao\<rparr>
                            else conta\<lparr>saldo := saldo conta - valor transacao\<rparr>)
              in case Conta_save d1 conta1 of
                   (Inl e, d2) \<Rightarrow> (d2, [Msg_error e], Render ''budget/transacao_form.html'')
                 | (Inr _, d2) \<Rightarrow> (d2, [Msg_success], Redirect ''transacoes''))))))
      else (d, [], Render ''budget/transacao_form.html''))"

definition transacao_editar ::
  "db \<Rightarrow> request \<Rightarrow> nat \<Rightarrow> error + db \<times> message list \<times> response" where
  \<comment> \<open>the first \<open>get\<close> is outside the \<open>try\<close>: its exception leaves the view.  The
      object \<open>conta_anterior\<close> is \<open>transacao.conta\<close>; the view changes its balance
      and never saves it\<close>
  "transacao_editar d request i =
     (case Transacao_get d i (req_user request) of
        Inl e \<Rightarrow> Inl e
      | Inr transacao \<Rightarrow> Inr
     (if req_method request = ''POST'' then
        (case Conta_of d (transacao_conta transacao) of
           Inl e \<Rightarrow> (d, [Msg_error e], Render ''budget/transacao_form.html'')
         | Inr conta0 \<Rightarrow>
        (let conta_anterior = (if tipo transacao = ''receita''
                               then conta0\<lparr>saldo := saldo conta0 - valor transacao\<rparr>
                               else conta0\<lparr>saldo := saldo conta0 + valor transacao\<rparr>)
         in
        (case get_conta_field d (f_conta (req_POST request)) (req_user request) of
           Inl e \<Rightarrow> (d, [Msg_error e], Render ''budget/transacao_form.html'')
         | Inr nova_conta \<Rightarrow>
        (case get_categoria_field d (f_categoria (req_POST request)) (req_user request) of
           Inl e \<Rightarrow> (d, [Msg_error e], Render ''budget/transacao_form.html'')
         | Inr categoria \<Rightarrow>
        (case Decimal (f_valor (req_POST request)) of
           Inl e \<Rightarrow> (d, [Msg_error e], Render ''budget/transacao_form.html'')
         | Inr v \<Rightarrow>
        (case Transacao_save d (transacao_id transacao)
                ((form_fields request (conta_id nova_conta) (categoria_id categoria) v)
                   \<lparr>tf_usuario := transacao_usuario transacao\<rparr>) of
           (Inl e, d1) \<Rightarrow> (d1, [Msg_error e], Render ''budget/transacao_form.html'')
         | (Inr transacao1, d1) \<Rightarrow>
             (let nova_conta1 = (if tipo transacao1 = ''receita''
                                 then nova_conta\<lparr>saldo := saldo nova_conta + valor transacao1\<rparr>
                                 else nova_conta\<lparr>saldo := saldo nova_conta - valor transacao1\<rparr>)
              in case Conta_save d1 nova_conta1 of
                   (Inl e, d2) \<Rightarrow> (d2, [Msg_error e], Render ''budget/transacao_form.html'')
                 | (Inr _, d2) \<Rightarrow> (d2, [Msg_success], Redirect ''transacoes''))))))))
      else (d, [], Render ''budget/transacao_form.html'')))"

definition transacao_deletar :: "db \<Rightarrow> request \<Rightarrow> nat \<Rightarrow> db \<times> message list \<times> response" where
  "transacao_deletar d request i =
     (if req_method request = ''POST'' then
        (case Transacao_get d i (req_user request) of
           Inl e \<Rightarrow> (d, [Msg_error e], Redirect ''transacoes'')
         | Inr transacao \<Rightarrow>
        (case Conta_of d (transacao_conta transacao) of
           Inl e \<Rightarrow> (d, [Msg_error e], Redirect ''transacoes'')
         | Inr conta0 \<Rightarrow>
             (let conta1 = (if tipo transacao = ''receita''
                            then conta0\<lparr>saldo := saldo conta0 - valor transacao\<rparr>
                            else conta0\<lparr>saldo := saldo conta0 + valor transacao\<rparr>)
              in case Conta_save d conta1 of
                   (Inl e, d1) \<Rightarrow> (d1, [Msg_error e], Redirect ''transacoes'')
                 | (Inr _, d1) \<Rightarrow>
                     (Transacao_delete d1 transacao, [Msg_success], Redirect ''transacoes''))))
      else (d, [], Redirect ''transacoes''))"

section \<open>The transaction endpoints of the API (budget/api/views.py)\<close>

text \<open>
  The serializer has validated the request before \<open>perform_create\<close> or
  \<open>perform_update\<close> runs.  Its \<open>validated_data\<close> holds, for a related field, the
  object that validation read from the database by primary key; for an update a key that
  the request left out is absent.  \<open>serializer.instance\<close> is the transaction read by
  the view's query, with its account and category objects read in the same query.
  All of these are objects of their own: none of them sees a later write to its row.
\<close>

record create_data =
  cd_conta :: conta
  cd_categoria :: "categoria option"
  cd_descricao :: string
  cd_valor :: int
  cd_tipo :: string
  cd_data :: date
  cd_observacoes :: string
  cd_recorrente :: bool

record update_data =
  ud_conta :: "conta option"
  ud_categoria :: "categoria option option"
  ud_descricao :: "string option"
  ud_valor :: "int option"
  ud_tipo :: "string option"
  ud_data :: "date option"
  ud_observacoes :: "string option"
  ud_recorrente :: "bool option"

record model_instance =
  inst_row :: transacao
  inst_conta :: conta
  inst_categoria :: "categoria option"

record serializer =
  ser_instance :: model_instance
  validated_data :: update_data

definition validate_related_objects :: "nat \<Rightarrow> conta \<Rightarrow> categoria option \<Rightarrow> error + unit" where
  "validate_related_objects user conta categoria =
     (if conta_usuario conta \<noteq> user then Inl PermissionDenied
      else case categoria of
        None \<Rightarrow> Inr ()
      | Some cat \<Rightarrow> if categoria_usuario cat \<noteq> user then Inl PermissionDenied else Inr ())"

definition aplicar_saldo ::
  "db \<Rightarrow> conta \<Rightarrow> int \<Rightarrow> string \<Rightarrow> bool \<Rightarrow> (error + conta) \<times> db" where
  \<comment> \<open>returns the account object as the call leaves it\<close>
  "aplicar_saldo d conta v tp reverter =
     (let conta1 = (if tp = ''receita''
                    then conta\<lparr>saldo := (if reverter then saldo conta - v else saldo conta + v)\<rparr>
                    else conta\<lparr>saldo := (if reverter then saldo conta + v else saldo conta - v)\<rparr>)
      in case Conta_save_saldo d conta1 of
           (Inl e, d1) \<Rightarrow> (Inl e, d1)
         | (Inr _, d1) \<Rightarrow> (Inr conta1, d1))"

definition perform_create :: "db \<Rightarrow> nat \<Rightarrow> create_data \<Rightarrow> (error + unit) \<times> db" where
  "perform_create d user vd =
     (case validate_related_objects user (cd_conta vd) (cd_categoria vd) of
        Inl e \<Rightarrow> (Inl e, d)
      | Inr _ \<Rightarrow>
          atomic (\<lambda>d0.
            case Transacao_create d0
                   \<lparr>tf_usuario = user, tf_conta = conta_id (cd_conta vd),
                    tf_categoria = map_option categoria_id (cd_categoria vd),
                    tf_descricao = Some (cd_descricao vd), tf_valor = cd_valor vd,
                    tf_tipo = Some (cd_tipo vd), tf_data = Val (cd_data vd),
                    tf_observacoes = cd_observacoes vd, tf_recorrente = cd_recorrente vd\<rparr> of
              (Inl e, d1) \<Rightarrow> (Inl e, d1)
            | (Inr transacao, d1) \<Rightarrow>
                (case aplicar_saldo d1 (cd_conta vd) (valor transacao) (tipo transacao) False of
                   (Inl e, d2) \<Rightarrow> (Inl e, d2)
                 | (Inr _, d2) \<Rightarrow> (Inr (), d2))) d)"

definition or_else :: "'a option \<Rightarrow> 'a \<Rightarrow> 'a" where
  \<comment> \<open>\<open>data.get(key, default)\<close>\<close>
  "or_else x y = (case x of None \<Rightarrow> y | Some v \<Rightarrow> v)"

definition serializer_save :: "db \<Rightarrow> model_instance \<Rightarrow> update_data \<Rightarrow> (error + model_instance) \<times> db" where
  \<comment> \<open>\<open>serializer.save()\<close> on an update: every validated key is assigned to the
      instance, then the instance is saved.  \<open>inst\<close> is the instance as it is at the call\<close>
  "serializer_save d inst vd =
     (let conta1 = or_else (ud_conta vd) (inst_conta inst);
          categoria1 = or_else (ud_categoria vd) (inst_categoria inst);
          row = inst_row inst
      in case Transacao_save d (transacao_id row)
                \<lparr>tf_usuario = transacao_usuario row, tf_conta = conta_id conta1,
                 tf_categoria = map_option categoria_id categoria1,
                 tf_descricao = Some (or_else (ud_descricao vd) (descricao row)),
                 tf_valor = or_else (ud_valor vd) (valor row),
                 tf_tipo = Some (or_else (ud_tipo vd) (tipo row)),
                 tf_data = Val (or_else (ud_data vd) (data row)),
                 tf_observacoes = or_else (ud_observacoes vd) (observacoes row),
                 tf_recorrente = or_else (ud_recorrente vd) (recorrente row)\<rparr> of
           (Inl e, d1) \<Rightarrow> (Inl e, d1)
         | (Inr row1, d1) \<Rightarrow>
             (Inr \<lparr>inst_row = row1, inst_conta = conta1, inst_categoria = categoria1\<rparr>, d1))"

definition perform_update :: "db \<Rightarrow> nat \<Rightarrow> serializer \<Rightarrow> (error + unit) \<times> db" where
  "perform_update d user ser =
     (let conta = or_else (ud_conta (validated_data ser)) (inst_conta (ser_instance ser));
          categoria = (case ud_categoria (validated_data ser) of
                         Some (Some cat) \<Rightarrow> Some cat
                       | _ \<Rightarrow> inst_categoria (ser_instance ser))
      in case validate_related_objects user conta categoria of
           Inl e \<Rightarrow> (Inl e, d)
         | Inr _ \<Rightarrow>
             atomic (\<lambda>d0.
               let inst = ser_instance ser in
               case aplicar_saldo d0 (inst_conta inst) (valor (inst_row inst))
                      (tipo (inst_row inst)) True of
                 (Inl e, d1) \<Rightarrow> (Inl e, d1)
               | (Inr conta_revertida, d1) \<Rightarrow>
                   (case serializer_save d1 (inst\<lparr>inst_conta := conta_revertida\<rparr>)
                           (validated_data ser) of
                      (Inl e, d2) \<Rightarrow> (Inl e, d2)
                    | (Inr transacao, d2) \<Rightarrow>
                        (case aplicar_saldo d2 (inst_conta transacao)
                                (valor (inst_row transacao)) (tipo (inst_row transacao)) False of
                           (Inl e, d3) \<Rightarrow> (Inl e, d3)
                         | (Inr _, d3) \<Rightarrow> (Inr (), d3)))) d)"

definition perform_destroy :: "db \<Rightarrow> model_instance \<Rightarrow> (error + unit) \<times> db" where
  "perform_destroy d inst =
     atomic (\<lambda>d0.
       case aplicar_saldo d0 (inst_conta inst) (valor (inst_row inst)) (tipo (inst_row inst)) True of
         (Inl e, d1) \<Rightarrow> (Inl e, d1)
       | (Inr _, d1) \<Rightarrow> (Inr (), Transacao_delete d1 (inst_row inst))) d"

definition get_object :: "db \<Rightarrow> nat \<Rightarrow> nat \<Rightarrow> error + model_instance" where
  \<comment> \<open>the view's \<open>get_object()\<close>: the user's transaction with this key from
      \<open>Transacao.objects.select_related("conta", "categoria")\<close>\<close>
  "get_object d user i =
     (case Transacao_get d i user of
        Inl e \<Rightarrow> Inl e
      | Inr row \<Rightarrow>
          (case Conta_of d (transacao_conta row) of
             Inl e \<Rightarrow> Inl e
           | Inr conta \<Rightarrow> Inr \<lparr>inst_row = row, inst_conta = conta,
               inst_categoria = (case transacao_categoria row of
                  None \<Rightarrow> None
                | Some c \<Rightarrow> (case Categoria_of d c of Inl _ \<Rightarrow> None | Inr cat \<Rightarrow> Some cat))\<rparr>))"

section \<open>The balance the spec requires\<close>

definition valor_com_sinal :: "transacao \<Rightarrow> int" where
  \<comment> \<open>income counts positive, expense negative\<close>
  "valor_com_sinal t = (if tipo t = ''receita'' then valor t else - valor t)"

definition soma_transacoes :: "db \<Rightarrow> nat \<Rightarrow> int" where
  \<comment> \<open>the signed sum of the transactions that reference the account\<close>
  "soma_transacoes d i =
     sum_list (map valor_com_sinal (filter (\<lambda>t. transacao_conta t = i) (transacoes d)))"

definition saldo_de :: "db \<Rightarrow> nat \<Rightarrow> int" where
  \<comment> \<open>the balance column of the account with this key\<close>
  "saldo_de d i = (case Conta_of d i of Inl _ \<Rightarrow> 0 | Inr c \<Rightarrow> saldo c)"

section \<open>References to another user's rows\<close>

definition conta_alheia :: "db \<Rightarrow> nat field \<Rightarrow> nat \<Rightarrow> bool" where
  \<comment> \<open>the form names an account that exists and belongs to another user\<close>
  "conta_alheia d f u = (\<exists>c \<in> set (contas d). f = Val (conta_id c) \<and> conta_usuario c \<noteq> u)"

definition categoria_alheia :: "db \<Rightarrow> nat field \<Rightarrow> nat \<Rightarrow> bool" where
  \<comment> \<open>the form names a category that exists and belongs to another user\<close>
  "categoria_alheia d f u =
     (\<exists>c \<in> set (categorias d). f = Val (categoria_id c) \<and> categoria_usuario c \<noteq> u)"

section \<open>A small database for the worked examples\<close>

definition ex_conta_a :: conta where
  "ex_conta_a = \<lparr>conta_id = 1, conta_usuario = 1, conta_nome = ''A'', conta_tipo = ''corrente'',
     saldo = 10000, banco = [], conta_cor = ''#007AFF'', ativo = True\<rparr>"

definition ex_conta_b :: conta where
  "ex_conta_b = \<lparr>conta_id = 2, conta_usuario = 1, conta_nome = ''B'', conta_tipo = ''poupanca'',
     saldo = 2500, banco = [], conta_cor = ''#007AFF'', ativo = True\<rparr>"

definition ex_conta_c :: conta where
  "ex_conta_c = \<lparr>conta_id = 3, conta_usuario = 2, conta_nome = ''C'', conta_tipo = ''carteira'',
     saldo = 700, banco = [], conta_cor = ''#007AFF'', ativo = True\<rparr>"

definition ex_categoria_food :: categoria where
  "ex_categoria_food = \<lparr>categoria_id = 1, categoria_usuario = 1, categoria_nome = ''Food'',
     categoria_tipo = ''despesa'', icone = ''$'', categoria_cor = ''#007AFF''\<rparr>"

definition ex_categoria_other :: categoria where
  "ex_categoria_other = \<lparr>categoria_id = 2, categoria_usuario = 2, categoria_nome = ''Rent'',
     categoria_tipo = ''despesa'', icone = ''$'', categoria_cor = ''#007AFF''\<rparr>"

definition ex_db :: db where
  "ex_db = \<lparr>contas = [ex_conta_a, ex_conta_b, ex_conta_c],
     categorias = [ex_categoria_food, ex_categoria_other],
     transacoes = [], orcamentos = [], transacao_seq = 1\<rparr>"

definition ex_form :: form where
  "ex_form = \<lparr>f_conta = Absent, f_categoria = Absent, f_descricao = None, f_valor = Absent,
     f_tipo = None, f_data = Absent, f_observacoes = None, f_recorrente = None\<rparr>"

definition ex_post :: request where
  "ex_post = \<lparr>req_method = ''POST'', req_user = 1, req_POST = ex_form\<rparr>"

definition ex_categoria_fun :: categoria where
  "ex_categoria_fun = \<lparr>categoria_id = 3, categoria_usuario = 1, categoria_nome = ''Fun'',
     categoria_tipo = ''despesa'', icone = ''$'', categoria_cor = ''#007AFF''\<rparr>"

definition ex_despesa :: "nat \<Rightarrow> nat \<Rightarrow> int \<Rightarrow> date \<Rightarrow> transacao" where
  \<comment> \<open>an expense of user 1 on account 1, with the given key, category, amount and date\<close>
  "ex_despesa i cat v dt = \<lparr>transacao_id = i, transacao_usuario = 1, transacao_conta = 1,
     transacao_categoria = Some cat, descricao = ''d'', valor = v, tipo = ''despesa'',
     data = dt, observacoes = [], recorrente = False\<rparr>"

definition ex_orcamento_food :: orcamento where
  "ex_orcamento_food = \<lparr>orcamento_id = 1, orcamento_usuario = 1, orcamento_categoria = 1,
     limite = 20000, mes = 11, ano = 2026\<rparr>"

definition ex_orcamento_fun :: orcamento where
  "ex_orcamento_fun = \<lparr>orcamento_id = 2, orcamento_usuario = 1, orcamento_categoria = 3,
     limite = 5000, mes = 11, ano = 2026\<rparr>"

definition ex_db_orc :: db where
  \<comment> \<open>Food: limit 200.00, three expenses summing to 210.00; Fun: limit 50.00, spent 50.00\<close>
  "ex_db_orc = \<lparr>contas = [ex_conta_a, ex_conta_b, ex_conta_c],
     categorias = [ex_categoria_food, ex_categoria_other, ex_categoria_fun],
     transacoes = [ex_despesa 1 1 10000 (2026, 11, 1), ex_despesa 2 1 6000 (2026, 11, 2),
       ex_despesa 3 1 5000 (2026, 11, 3), ex_despesa 4 3 5000 (2026, 11, 3)],
     orcamentos = [ex_orcamento_food, ex_orcamento_fun], transacao_seq = 5\<rparr>"

definition ex_ns :: notification_system where
  "ex_ns = \<lparr>ns_usuario = 1, ns_hoje = (2026, 11, 4)\<rparr>"

definition ex_orcamento_300 :: orcamento where
  "ex_orcamento_300 = \<lparr>orcamento_id = 1, orcamento_usuario = 1, orcamento_categoria = 1,
     limite = 30000, mes = 11, ano = 2026\<rparr>"

definition ex_db_7000 :: db where
  \<comment> \<open>Food: limit 300.00, one expense of 209.99\<close>
  "ex_db_7000 = \<lparr>contas = [ex_conta_a], categorias = [ex_categoria_food],
     transacoes = [ex_despesa 1 1 20999 (2026, 11, 1)],
     orcamentos = [ex_orcamento_300], transacao_seq = 2\<rparr>"

definition ex_an :: analytics where
  "ex_an = \<lparr>an_usuario = 1, data_inicio = (2026, 1, 1), data_fim = (2026, 12, 31)\<rparr>"


definition ex_form_receita :: form where
  \<comment> \<open>an income of 50.00 on account 1\<close>
  "ex_form_receita = \<lparr>f_conta = Val 1, f_categoria = Val 1, f_descricao = Some ''t'',
     f_valor = Val 5000, f_tipo = Some ''receita'', f_data = Val (2026, 11, 4),
     f_observacoes = None, f_recorrente = None\<rparr>"

definition ex_form_despesa :: form where
  \<comment> \<open>an expense of 20.00 on account 1\<close>
  "ex_form_despesa = \<lparr>f_conta = Val 1, f_categoria = Val 1, f_descricao = Some ''t'',
     f_valor = Val 2000, f_tipo = Some ''despesa'', f_data = Val (2026, 11, 4),
     f_observacoes = None, f_recorrente = None\<rparr>"

definition ex_request :: "form \<Rightarrow> request" where
  \<comment> \<open>user 1 posts the form\<close>
  "ex_request f = \<lparr>req_method = ''POST'', req_user = 1, req_POST = f\<rparr>"

definition ex_db_criada :: db where
  \<comment> \<open>\<open>ex_db\<close> after user 1 has created the income of 50.00 through the form view\<close>
  "ex_db_criada = fst (transacao_criar ex_db (ex_request ex_form_receita))"

definition ex_form_despesa_b :: form where
  \<comment> \<open>the expense of 20.00, on account 2\<close>
  "ex_form_despesa_b = ex_form_despesa\<lparr>f_conta := Val 2\<rparr>"

definition ex_form_alheia :: form where
  \<comment> \<open>the income of 50.00, on account 3, which belongs to user 2\<close>
  "ex_form_alheia = ex_form_receita\<lparr>f_conta := Val 3\<rparr>"

definition ex_db_cheia :: db where
  \<comment> \<open>\<open>ex_db\<close> with account 1 at 9999999999.99, the largest balance of the column\<close>
  "ex_db_cheia = ex_db\<lparr>contas := [ex_conta_a\<lparr>saldo := 999999999999\<rparr>, ex_conta_b, ex_conta_c]\<rparr>"

definition ex_form_centavo :: form where
  \<comment> \<open>an income of 0.01 on account 1\<close>
  "ex_form_centavo = ex_form_receita\<lparr>f_valor := Val 1\<rparr>"

definition ex_transacao_centavo :: transacao where
  "ex_transacao_centavo = \<lparr>transacao_id = 1, transacao_usuario = 1, transacao_conta = 1,
     transacao_categoria = Some 1, descricao = ''t'', valor = 1, tipo = ''receita'',
     data = (2026, 11, 4), observacoes = [], recorrente = False\<rparr>"

definition ex_create_centavo :: create_data where
  \<comment> \<open>the same income of 0.01 as validated data of the API\<close>
  "ex_create_centavo = \<lparr>cd_conta = ex_conta_a\<lparr>saldo := 999999999999\<rparr>,
     cd_categoria = Some ex_categoria_food, cd_descricao = ''t'', cd_valor = 1,
     cd_tipo = ''receita'', cd_data = (2026, 11, 4), cd_observacoes = [],
     cd_recorrente = False\<rparr>"

definition ex_create_alheia :: create_data where
  \<comment> \<open>validated data that names account 3, which belongs to user 2\<close>
  "ex_create_alheia = ex_create_centavo\<lparr>cd_conta := ex_conta_c\<rparr>"

definition ex_update :: "conta option \<Rightarrow> update_data" where
  \<comment> \<open>a request to change the transaction to an expense of 20.00, with or without
      the account key\<close>
  "ex_update c = \<lparr>ud_conta = c, ud_categoria = None, ud_descricao = None,
     ud_valor = Some 2000, ud_tipo = Some ''despesa'', ud_data = None,
     ud_observacoes = None, ud_recorrente = None\<rparr>"

definition ex_orcamento_10040 :: orcamento where
  "ex_orcamento_10040 = \<lparr>orcamento_id = 1, orcamento_usuario = 1, orcamento_categoria = 1,
     limite = 10040, mes = 11, ano = 2026\<rparr>"

definition ex_db_9036 :: db where
  \<comment> \<open>Food: limit 100.40, one expense of 90.36\<close>
  "ex_db_9036 = \<lparr>contas = [ex_conta_a], categorias = [ex_categoria_food],
     transacoes = [ex_despesa 1 1 9036 (2026, 11, 1)],
     orcamentos = [ex_orcamento_10040], transacao_seq = 2\<rparr>"



definition ex_form_malformada :: form where
  \<comment> \<open>the income of 50.00 with an account field that is not a number, in category 2,
      which belongs to user 2\<close>
  "ex_form_malformada = ex_form_receita\<lparr>f_conta := Malformed, f_categoria := Val 2\<rparr>"

section \<open>Soft delete of an account\<close>

lemma filter_key_unique:
  "distinct (map f xs) \<Longrightarrow> c \<in> set xs \<Longrightarrow>
   filter (\<lambda>x. f x = f c \<and> P x) xs = (if P c then [c] else [])"
proof (induction xs)
  case Nil
  then show ?case by simp
next
  case (Cons a xs)
  show ?case
  proof (cases "a = c")
    case True
    with Cons.prems have "\<forall>x \<in> set xs. f x \<noteq> f c" by (auto simp: image_iff)
    then have "filter (\<lambda>x. f x = f c \<and> P x) xs = []" by (simp add: filter_empty_conv)
    with True show ?thesis by simp
  next
    case False
    with Cons.prems have "c \<in> set xs" "distinct (map f xs)" "f a \<noteq> f c"
      by (auto simp: image_iff)
    with Cons.IH show ?thesis by simp
  qed
qed

lemma Conta_get_unique:
  assumes "distinct (map conta_id (contas d))" and "c \<in> set (contas d)"
    and "conta_usuario c = u"
  shows "Conta_get d (conta_id c) u = Inr c"
  using filter_key_unique [OF assms(1,2), of "\<lambda>x. conta_usuario x = u"] assms(3)
  by (simp add: Conta_get_def)

lemma saldo_total_soft:
  "saldo_total (d\<lparr>contas := map (\<lambda>x. if conta_id x = i then x\<lparr>ativo := False\<rparr> else x)
       (contas d)\<rparr>) u =
   or_zero (Sum_agg (map saldo
     (filter (\<lambda>x. conta_usuario x = u \<and> ativo x \<and> conta_id x \<noteq> i) (contas d))))"
proof -
  have key: "filter (\<lambda>c. conta_usuario c = u \<and> ativo c)
        (map (\<lambda>x. if conta_id x = i then x\<lparr>ativo := False\<rparr> else x) xs)
      = filter (\<lambda>x. conta_usuario x = u \<and> ativo x \<and> conta_id x \<noteq> i) xs" for xs
    by (induction xs) auto
  show ?thesis unfolding saldo_total_def by (simp add: key)
qed

text \<open>
  C10.  \<open>conta_deletar\<close> on an account of the requesting user is a soft delete: the
  database afterwards is the one before with \<open>ativo\<close> set to \<open>False\<close> in that one row.
  The row stays, with its name and balance; every other account, every transaction,
  category and budget is as before; and the dashboard's total of active balances is the
  total over the user's other active accounts.
\<close>

theorem conta_deletar_soft_delete:
  assumes "req_method request = ''POST''"
    and "distinct (map conta_id (contas d))"
    and "c \<in> set (contas d)" and "conta_id c = i"
    and "conta_usuario c = req_user request"
    and "fits_12_2 (saldo c)"
  shows "conta_deletar d request i =
      (d\<lparr>contas := map (\<lambda>x. if conta_id x = i then x\<lparr>ativo := False\<rparr> else x) (contas d)\<rparr>,
       [Msg_success], Redirect ''contas'')
    \<and> saldo_total (fst (conta_deletar d request i)) (req_user request) =
      or_zero (Sum_agg (map saldo (filter
        (\<lambda>x. conta_usuario x = req_user request \<and> ativo x \<and> conta_id x \<noteq> i) (contas d))))"
proof -
  have get: "Conta_get d i (req_user request) = Inr c"
    using Conta_get_unique [OF assms(2,3,5)] assms(4) by simp
  have inj: "inj_on conta_id (set (contas d))"
    using assms(2) by (simp add: distinct_map)
  have "map (\<lambda>x. if conta_id x = i then c\<lparr>ativo := False\<rparr> else x) (contas d)
      = map (\<lambda>x. if conta_id x = i then x\<lparr>ativo := False\<rparr> else x) (contas d)"
  proof (rule map_cong [OF refl])
    fix x assume "x \<in> set (contas d)"
    with inj assms(3,4) have "conta_id x = i \<Longrightarrow> x = c" by (auto dest: inj_onD)
    then show "(if conta_id x = i then c\<lparr>ativo := False\<rparr> else x)
             = (if conta_id x = i then x\<lparr>ativo := False\<rparr> else x)" by auto
  qed
  moreover have "\<exists>x \<in> set (contas d). conta_id x = i" using assms(3,4) by blast
  ultimately have res: "conta_deletar d request i =
      (d\<lparr>contas := map (\<lambda>x. if conta_id x = i then x\<lparr>ativo := False\<rparr> else x) (contas d)\<rparr>,
       [Msg_success], Redirect ''contas'')"
    using get assms(1,4,6) by (simp add: conta_deletar_def Conta_save_def)
  show ?thesis unfolding res by (simp add: saldo_total_soft)
qed

theorem conta_deletar_soft_delete_witness:
  "conta_deletar ex_db ex_post 1 =
      (ex_db\<lparr>contas := [ex_conta_a\<lparr>ativo := False\<rparr>, ex_conta_b, ex_conta_c]\<rparr>,
       [Msg_success], Redirect ''contas'')
   \<and> saldo_total ex_db 1 = 12500
   \<and> saldo_total (fst (conta_deletar ex_db ex_post 1)) 1 = 2500"
proof -
  have "conta_deletar ex_db ex_post 1 =
      (ex_db\<lparr>contas := map (\<lambda>x. if conta_id x = 1 then x\<lparr>ativo := False\<rparr> else x) (contas ex_db)\<rparr>,
       [Msg_success], Redirect ''contas'')
    \<and> saldo_total (fst (conta_deletar ex_db ex_post 1)) (req_user ex_post) =
      or_zero (Sum_agg (map saldo (filter
        (\<lambda>x. conta_usuario x = req_user ex_post \<and> ativo x \<and> conta_id x \<noteq> 1) (contas ex_db))))"
    by (rule conta_deletar_soft_delete [of ex_post ex_db ex_conta_a 1])
      (simp_all add: ex_post_def ex_db_def ex_conta_a_def ex_conta_b_def ex_conta_c_def
        fits_12_2_def)
  then show ?thesis
    by (simp add: ex_post_def ex_db_def ex_conta_a_def ex_conta_b_def ex_conta_c_def
        saldo_total_def Sum_agg_def or_zero_def)
qed

section \<open>Budget alerts\<close>

lemma or_zero_Sum_agg: "or_zero (Sum_agg xs) = sum_list xs"
  by (simp add: or_zero_def Sum_agg_def)

lemma dec_ratio: "dec a / dec b = of_int a / of_int b"
  by (simp add: dec_def)

lemma dec_eq_0: "dec a = 0 \<longleftrightarrow> a = 0"
  by (simp add: dec_def)

lemma percentual_alerta_eq:
  "percentual_alerta (calcular_gasto d self orc) (limite orc) = Inr (percentual_spec d (ns_usuario self) orc)"
  by (simp add: percentual_alerta_def calcular_gasto_def percentual_spec_def py_div_def
      or_zero_Sum_agg dec_ratio dec_eq_0)

lemma criar_alerta_nivel:
  assumes "Categoria_of d (orcamento_categoria orc) = Inr cat"
  shows "\<exists>r. criar_alerta d orc gasto pct = Inr r
     \<and> map_option (\<lambda>a. (alerta_orcamento_id a, nivel a, percentual a)) r
       = map_option (\<lambda>n. (orcamento_id orc, n, pct)) (nivel_spec pct)"
  using assms by (simp add: criar_alerta_def nivel_spec_def)

lemma alertas_loop_spec:
  assumes "\<forall>orc \<in> set orcs. \<exists>cat. Categoria_of d (orcamento_categoria orc) = Inr cat"
  shows "\<exists>al. alertas_loop d self orcs = Inr al
     \<and> map (\<lambda>a. (alerta_orcamento_id a, nivel a, percentual a)) al
       = List.map_filter (\<lambda>orc. map_option (\<lambda>n. (orcamento_id orc, n, percentual_spec d (ns_usuario self) orc))
            (nivel_spec (percentual_spec d (ns_usuario self) orc))) orcs"
  using assms
proof (induction orcs)
  case Nil
  then show ?case by (simp add: map_filter_simps)
next
  case (Cons orc orcs)
  then obtain al where al: "alertas_loop d self orcs = Inr al"
    and IH: "map (\<lambda>a. (alerta_orcamento_id a, nivel a, percentual a)) al
       = List.map_filter (\<lambda>orc. map_option (\<lambda>n. (orcamento_id orc, n, percentual_spec d (ns_usuario self) orc))
            (nivel_spec (percentual_spec d (ns_usuario self) orc))) orcs"
    by auto
  from Cons.prems obtain cat where cat: "Categoria_of d (orcamento_categoria orc) = Inr cat"
    by auto
  from criar_alerta_nivel [OF cat, of "calcular_gasto d self orc" "percentual_spec d (ns_usuario self) orc"]
  obtain r where r: "criar_alerta d orc (calcular_gasto d self orc) (percentual_spec d (ns_usuario self) orc) = Inr r"
    and rs: "map_option (\<lambda>a. (alerta_orcamento_id a, nivel a, percentual a)) r
       = map_option (\<lambda>n. (orcamento_id orc, n, percentual_spec d (ns_usuario self) orc))
           (nivel_spec (percentual_spec d (ns_usuario self) orc))"
    by blast
  show ?case
    using al IH r rs
    by (cases r; cases "nivel_spec (percentual_spec d (ns_usuario self) orc)")
      (simp_all add: percentual_alerta_eq map_filter_simps)
qed

lemma length_filter_map_filter:
  "length (filter P (List.map_filter g xs)) =
   length (filter (\<lambda>x. case g x of None \<Rightarrow> False | Some y \<Rightarrow> P y) xs)"
  by (induction xs) (auto simp: map_filter_simps split: option.splits)

lemma length_map_filter:
  "length (List.map_filter g xs) = length (filter (\<lambda>x. g x \<noteq> None) xs)"
  by (induction xs) (auto simp: map_filter_simps split: option.splits)

lemma nivel_spec_cases:
  "nivel_spec p = Some ''critico'' \<longleftrightarrow> 100 \<le> p"
  "nivel_spec p = Some ''alto'' \<longleftrightarrow> 90 \<le> p \<and> p < 100"
  "nivel_spec p = Some ''medio'' \<longleftrightarrow> 75 \<le> p \<and> p < 90"
  "nivel_spec p = None \<longleftrightarrow> p < 75"
  by (auto simp: nivel_spec_def)


text \<open>
  C7.  For the budgets of the current month, \<open>get_alertas\<close> returns, in order, one alert
  for every budget whose percentage is at least 75, with the level of the spec's table
  (at least 100: \<open>critico\<close>; from 90 up to 100: \<open>alto\<close>; from 75 up to 90: \<open>medio\<close>)
  and none for a budget below 75.  \<open>contar_alertas\<close> reports the number of alerts and
  the number at each of the three levels.  A budget spent at exactly its positive limit
  is at 100 percent and gets the level \<open>critico\<close>.  The hypothesis is the foreign key
  of the budget table: every budget's category exists.
\<close>

theorem alertas_por_severidade:
  assumes "\<forall>orc \<in> set (orcamentos d).
     \<exists>cat \<in> set (categorias d). categoria_id cat = orcamento_categoria orc"
  shows "(\<exists>al. get_alertas d self = Inr al
       \<and> map (\<lambda>a. (alerta_orcamento_id a, nivel a, percentual a)) al
         = List.map_filter
             (\<lambda>orc. map_option (\<lambda>n. (orcamento_id orc, n, percentual_spec d (ns_usuario self) orc))
                (nivel_spec (percentual_spec d (ns_usuario self) orc)))
             (orcamentos_do_mes d (ns_usuario self) (ns_hoje self)))
    \<and> contar_alertas d self = Inr
        \<lparr>total = length (filter (\<lambda>orc. 75 \<le> percentual_spec d (ns_usuario self) orc)
           (orcamentos_do_mes d (ns_usuario self) (ns_hoje self))),
         criticos = length (filter (\<lambda>orc. 100 \<le> percentual_spec d (ns_usuario self) orc)
           (orcamentos_do_mes d (ns_usuario self) (ns_hoje self))),
         altos = length (filter (\<lambda>orc. 90 \<le> percentual_spec d (ns_usuario self) orc
             \<and> percentual_spec d (ns_usuario self) orc < 100)
           (orcamentos_do_mes d (ns_usuario self) (ns_hoje self))),
         medios = length (filter (\<lambda>orc. 75 \<le> percentual_spec d (ns_usuario self) orc
             \<and> percentual_spec d (ns_usuario self) orc < 90)
           (orcamentos_do_mes d (ns_usuario self) (ns_hoje self)))\<rparr>
    \<and> (\<forall>orc. 0 < limite orc
          \<and> sum_list (map valor (gasto_rows d (ns_usuario self) orc)) = limite orc
        \<longrightarrow> nivel_spec (percentual_spec d (ns_usuario self) orc) = Some ''critico'')"
proof -
  let ?u = "ns_usuario self"
  let ?orcs = "orcamentos_do_mes d ?u (ns_hoje self)"
  let ?g = "\<lambda>orc. map_option (\<lambda>n. (orcamento_id orc, n, percentual_spec d ?u orc))
                (nivel_spec (percentual_spec d ?u orc))"
  have "\<forall>orc \<in> set ?orcs. \<exists>cat. Categoria_of d (orcamento_categoria orc) = Inr cat"
  proof
    fix orc assume "orc \<in> set ?orcs"
    then have "orc \<in> set (orcamentos d)" by (simp add: orcamentos_do_mes_def)
    with assms obtain cat where "cat \<in> set (categorias d)"
      and "categoria_id cat = orcamento_categoria orc" by blast
    then have "filter (\<lambda>c. categoria_id c = orcamento_categoria orc) (categorias d) \<noteq> []"
      by (auto simp: filter_empty_conv)
    then show "\<exists>cat. Categoria_of d (orcamento_categoria orc) = Inr cat"
      by (auto simp: Categoria_of_def split: list.splits)
  qed
  from alertas_loop_spec [OF this, of self]
  obtain al where al: "get_alertas d self = Inr al"
    and sp: "map (\<lambda>a. (alerta_orcamento_id a, nivel a, percentual a)) al = List.map_filter ?g ?orcs"
    unfolding get_alertas_def by blast
  have len: "length al = length (List.map_filter ?g ?orcs)"
    using arg_cong [OF sp, of length] by simp
  have cnt: "length (filter (\<lambda>a. nivel a = s) al)
      = length (filter (\<lambda>orc. nivel_spec (percentual_spec d ?u orc) = Some s) ?orcs)" for s
  proof -
    have "length (filter (\<lambda>a. nivel a = s) al)
        = length (filter (\<lambda>x. fst (snd x) = s)
            (map (\<lambda>a. (alerta_orcamento_id a, nivel a, percentual a)) al))"
      by (simp add: filter_map comp_def)
    also have "\<dots> = length (filter (\<lambda>x. fst (snd x) = s) (List.map_filter ?g ?orcs))"
      by (simp only: sp)
    also have "\<dots> = length (filter (\<lambda>orc. nivel_spec (percentual_spec d ?u orc) = Some s) ?orcs)"
      unfolding length_filter_map_filter
      by (rule arg_cong [where f = length], rule filter_cong [OF refl])
        (auto split: option.splits)
    finally show ?thesis .
  qed
  have tot: "length al = length (filter (\<lambda>orc. 75 \<le> percentual_spec d ?u orc) ?orcs)"
    unfolding len length_map_filter
    by (rule arg_cong [where f = length], rule filter_cong [OF refl])
      (auto simp: nivel_spec_def)
  have "contar_alertas d self = Inr
        \<lparr>total = length (filter (\<lambda>orc. 75 \<le> percentual_spec d ?u orc) ?orcs),
         criticos = length (filter (\<lambda>orc. 100 \<le> percentual_spec d ?u orc) ?orcs),
         altos = length (filter (\<lambda>orc. 90 \<le> percentual_spec d ?u orc \<and> percentual_spec d ?u orc < 100) ?orcs),
         medios = length (filter (\<lambda>orc. 75 \<le> percentual_spec d ?u orc \<and> percentual_spec d ?u orc < 90) ?orcs)\<rparr>"
    by (simp add: contar_alertas_def al cnt tot nivel_spec_cases)
  moreover have "\<forall>orc. 0 < limite orc
          \<and> sum_list (map valor (gasto_rows d ?u orc)) = limite orc
        \<longrightarrow> nivel_spec (percentual_spec d ?u orc) = Some ''critico''"
    by (simp add: percentual_spec_def nivel_spec_def)
  ultimately show ?thesis using al sp by blast
qed

theorem alertas_por_severidade_witness:
  "contar_alertas ex_db_orc ex_ns = Inr \<lparr>total = 2, criticos = 2, altos = 0, medios = 0\<rparr>
   \<and> percentual_spec ex_db_orc 1 ex_orcamento_fun = 100
   \<and> nivel_spec (percentual_spec ex_db_orc 1 ex_orcamento_fun) = Some ''critico''"
proof -
  have fk: "\<forall>orc \<in> set (orcamentos ex_db_orc).
     \<exists>cat \<in> set (categorias ex_db_orc). categoria_id cat = orcamento_categoria orc"
    by (simp add: ex_db_orc_def ex_orcamento_food_def ex_orcamento_fun_def
        ex_categoria_food_def ex_categoria_fun_def)
  have pfood: "percentual_spec ex_db_orc 1 ex_orcamento_food = 105"
    by (simp add: percentual_spec_def gasto_rows_def ex_db_orc_def ex_orcamento_food_def
        ex_despesa_def month_def year_def)
  have pfun: "percentual_spec ex_db_orc 1 ex_orcamento_fun = 100"
    by (simp add: percentual_spec_def gasto_rows_def ex_db_orc_def ex_orcamento_fun_def
        ex_despesa_def month_def year_def)
  have orcs: "orcamentos_do_mes ex_db_orc 1 (2026, 11, 4) = [ex_orcamento_food, ex_orcamento_fun]"
    by (simp add: orcamentos_do_mes_def ex_db_orc_def ex_orcamento_food_def
        ex_orcamento_fun_def month_def year_def)
  have u: "ns_usuario ex_ns = 1" "ns_hoje ex_ns = (2026, 11, 4)"
    by (simp_all add: ex_ns_def)
  from alertas_por_severidade [OF fk, of ex_ns]
  have "contar_alertas ex_db_orc ex_ns = Inr
        \<lparr>total = length (filter (\<lambda>orc. 75 \<le> percentual_spec ex_db_orc (ns_usuario ex_ns) orc)
           (orcamentos_do_mes ex_db_orc (ns_usuario ex_ns) (ns_hoje ex_ns))),
         criticos = length (filter (\<lambda>orc. 100 \<le> percentual_spec ex_db_orc (ns_usuario ex_ns) orc)
           (orcamentos_do_mes ex_db_orc (ns_usuario ex_ns) (ns_hoje ex_ns))),
         altos = length (filter (\<lambda>orc. 90 \<le> percentual_spec ex_db_orc (ns_usuario ex_ns) orc
             \<and> percentual_spec ex_db_orc (ns_usuario ex_ns) orc < 100)
           (orcamentos_do_mes ex_db_orc (ns_usuario ex_ns) (ns_hoje ex_ns))),
         medios = length (filter (\<lambda>orc. 75 \<le> percentual_spec ex_db_orc (ns_usuario ex_ns) orc
             \<and> percentual_spec ex_db_orc (ns_usuario ex_ns) orc < 90)
           (orcamentos_do_mes ex_db_orc (ns_usuario ex_ns) (ns_hoje ex_ns)))\<rparr>"
    by blast
  then show ?thesis
    unfolding u orcs by (simp add: pfood pfun nivel_spec_def del: One_nat_def)
qed

section \<open>Period summary\<close>






section \<open>Rounding to binary64\<close>

lemma half_even_pos: "1 \<le> y \<Longrightarrow> 0 < half_even y"
proof -
  assume "1 \<le> y"
  then have "1 \<le> \<lfloor>y\<rfloor>" by simp
  then show ?thesis by (auto simp: half_even_def Let_def)
qed

lemma expoente_le:
  assumes "0 < x"
  shows "2 powi expoente x \<le> x"
proof -
  obtain p q where pq: "quotient_of x = (p, q)" by (cases "quotient_of x")
  then have q: "0 < q" and x: "x = of_int p / of_int q"
    by (auto dest: quotient_of_denom_pos quotient_of_div)
  with assms have p: "0 < p" by (simp add: zero_less_divide_iff)
  let ?e = "bitlen p - bitlen q"
  have abs: "\<bar>x\<bar> = x" using assms by simp
  show ?thesis
  proof (cases "2 powi ?e \<le> x")
    case True
    then show ?thesis by (simp add: expoente_def abs pq)
  next
    case False
    then have e: "expoente x = ?e - 1" by (simp add: expoente_def abs pq)
    from bitlen_bounds [OF p] have "2 ^ nat (bitlen p - 1) \<le> p" by simp
    then have "of_int (2 ^ nat (bitlen p - 1)) \<le> (of_int p :: rat)" by (simp only: of_int_le_iff)
    then have 1: "(2 :: rat) ^ nat (bitlen p - 1) \<le> of_int p" by simp
    from bitlen_bounds [OF q] have "q < 2 ^ nat (bitlen q)" by simp
    then have "(of_int q :: rat) < of_int (2 ^ nat (bitlen q))" by (simp only: of_int_less_iff)
    then have 2: "(of_int q :: rat) \<le> 2 ^ nat (bitlen q)" by simp
    have bp: "1 \<le> bitlen p" using p by (auto simp: bitlen_alt_def)
    have bq: "0 \<le> bitlen q" by (rule bitlen_nonneg)
    have "(2 :: rat) powi (?e - 1) = 2 powi (bitlen p - 1) / 2 powi (bitlen q)"
      using power_int_diff [of "2 :: rat" "bitlen p - 1" "bitlen q"] by (simp add: algebra_simps)
    also have "\<dots> = 2 ^ nat (bitlen p - 1) / 2 ^ nat (bitlen q)"
      using bp bq by (simp add: power_int_def)
    also have "\<dots> \<le> of_int p / of_int q"
      using 1 2 q p by (intro frac_le) simp_all
    finally have "(2 :: rat) powi (?e - 1) \<le> of_int p / of_int q" .
    then show ?thesis unfolding e by (simp only: x [symmetric])
  qed
qed

lemma py_float_pos:
  assumes "0 < x"
  shows "0 < py_float x"
proof -
  let ?a = "(2 :: rat) powi (expoente x - 52)"
  have a: "0 < ?a" by (simp add: zero_less_power_int)
  have eq: "?a * 2 powi 52 = 2 powi expoente x"
    using power_int_add [of "2 :: rat" "expoente x - 52" 52] by simp
  have "(1 :: rat) \<le> 2 powi 52" by (simp add: power_int_def)
  with a have "?a * 1 \<le> ?a * 2 powi 52" by (intro mult_left_mono) simp_all
  with eq expoente_le [OF assms] have "?a \<le> x" by simp
  with a have "1 \<le> x / ?a" by (simp add: pos_le_divide_eq)
  then have "0 < half_even (\<bar>x\<bar> / ?a)"
    using assms half_even_pos by simp
  with a show ?thesis
    using assms by (simp add: py_float_def Let_def)
qed

section \<open>Budget performance\<close>

lemma dec_pos: "0 < c \<Longrightarrow> 0 < dec c"
  by (simp add: dec_def)

lemma percentual_float_eq:
  "percentual_float (sum_list (map valor (gasto_rows d u orc))) (limite orc)
     = Inr (percentual_binario d u orc)"
proof (cases "0 < limite orc")
  case True
  then have "py_float (dec (limite orc)) \<noteq> 0"
    using py_float_pos [OF dec_pos] by (metis less_irrefl)
  with True show ?thesis
    by (simp add: percentual_float_def percentual_binario_def fdiv_def fmul_def)
next
  case False
  then show ?thesis by (simp add: percentual_float_def percentual_binario_def)
qed

lemma performance_loop_spec:
  assumes "\<forall>orc \<in> set orcs. \<exists>cat. Categoria_of d (orcamento_categoria orc) = Inr cat"
  shows "\<exists>res. performance_loop d self orcs = Inr res
     \<and> map (\<lambda>r. (perf_limite r, perf_gasto r, disponivel r, perf_percentual r, status r)) res
       = map (\<lambda>orc. (py_float (dec (limite orc)),
                      py_float (dec (sum_list (map valor (gasto_rows d (an_usuario self) orc)))),
                      py_float (dec (limite orc
                         - sum_list (map valor (gasto_rows d (an_usuario self) orc)))),
                      py_round (percentual_binario d (an_usuario self) orc) 2,
                      status_orcamento (percentual_binario d (an_usuario self) orc))) orcs"
  using assms
proof (induction orcs)
  case Nil
  then show ?case by simp
next
  case (Cons orc orcs)
  then obtain res where "performance_loop d self orcs = Inr res"
    and "map (\<lambda>r. (perf_limite r, perf_gasto r, disponivel r, perf_percentual r, status r)) res
       = map (\<lambda>orc. (py_float (dec (limite orc)),
                      py_float (dec (sum_list (map valor (gasto_rows d (an_usuario self) orc)))),
                      py_float (dec (limite orc
                         - sum_list (map valor (gasto_rows d (an_usuario self) orc)))),
                      py_round (percentual_binario d (an_usuario self) orc) 2,
                      status_orcamento (percentual_binario d (an_usuario self) orc))) orcs"
    by auto
  moreover from Cons.prems obtain cat where "Categoria_of d (orcamento_categoria orc) = Inr cat"
    by auto
  ultimately show ?case
    by (simp add: percentual_float_eq or_zero_Sum_agg Let_def)
qed

lemma status_orcamento_cases:
  "status_orcamento p = ''normal'' \<longleftrightarrow> p < 70"
  "status_orcamento p = ''atencao'' \<longleftrightarrow> 70 \<le> p \<and> p < 90"
  "status_orcamento p = ''critico'' \<longleftrightarrow> 90 \<le> p \<and> p < 100"
  "status_orcamento p = ''excedido'' \<longleftrightarrow> 100 \<le> p"
  by (auto simp: status_orcamento_def)

text \<open>
  C6, as amended.  For the budgets of the current month and year, \<open>orcamento_performance\<close>
  never raises and returns, in order, for each budget: the limit; spent, the sum of the
  expenses of the budget's category in that month and year; available, limit minus
  spent, subtracted as decimals; the percentage rounded to two decimals; and the status
  of the unrounded percentage.  Limit, spent and available are returned as floats.  The
  percentage is computed in binary floating point, float(spent) / float(limit) * 100 with
  the quotient and the product rounded, for a positive limit, and is 0 otherwise.  The
  status is \<open>normal\<close> below 70, \<open>atencao\<close> from 70 up to 90, \<open>critico\<close> from 90 up
  to 100 and \<open>excedido\<close> from 100 on.  The hypothesis is the foreign key of the budget
  table: every budget's category exists.
\<close>

theorem orcamento_performance_spec:
  assumes "\<forall>orc \<in> set (orcamentos d).
     \<exists>cat \<in> set (categorias d). categoria_id cat = orcamento_categoria orc"
  shows "(\<exists>res. orcamento_performance d self hoje = Inr res
     \<and> map (\<lambda>r. (perf_limite r, perf_gasto r, disponivel r, perf_percentual r, status r)) res
       = map (\<lambda>orc. (py_float (dec (limite orc)),
                      py_float (dec (sum_list (map valor (gasto_rows d (an_usuario self) orc)))),
                      py_float (dec (limite orc
                         - sum_list (map valor (gasto_rows d (an_usuario self) orc)))),
                      py_round (percentual_binario d (an_usuario self) orc) 2,
                      status_orcamento (percentual_binario d (an_usuario self) orc)))
           (orcamentos_do_mes d (an_usuario self) hoje))
    \<and> (\<forall>orc. limite orc \<le> 0 \<longrightarrow> percentual_binario d (an_usuario self) orc = 0)
    \<and> (\<forall>orc. 0 < limite orc \<longrightarrow> percentual_binario d (an_usuario self) orc
          = fmul (py_float
              (py_float (dec (sum_list (map valor (gasto_rows d (an_usuario self) orc))))
                 / py_float (dec (limite orc)))) 100)
    \<and> (\<forall>p. (status_orcamento p = ''normal'' \<longleftrightarrow> p < 70)
          \<and> (status_orcamento p = ''atencao'' \<longleftrightarrow> 70 \<le> p \<and> p < 90)
          \<and> (status_orcamento p = ''critico'' \<longleftrightarrow> 90 \<le> p \<and> p < 100)
          \<and> (status_orcamento p = ''excedido'' \<longleftrightarrow> 100 \<le> p))"
proof -
  let ?orcs = "orcamentos_do_mes d (an_usuario self) hoje"
  have "\<forall>orc \<in> set ?orcs. \<exists>cat. Categoria_of d (orcamento_categoria orc) = Inr cat"
  proof
    fix orc assume "orc \<in> set ?orcs"
    then have "orc \<in> set (orcamentos d)" by (simp add: orcamentos_do_mes_def)
    with assms obtain cat where "cat \<in> set (categorias d)"
      and "categoria_id cat = orcamento_categoria orc" by blast
    then have "filter (\<lambda>c. categoria_id c = orcamento_categoria orc) (categorias d) \<noteq> []"
      by (auto simp: filter_empty_conv)
    then show "\<exists>cat. Categoria_of d (orcamento_categoria orc) = Inr cat"
      by (auto simp: Categoria_of_def split: list.splits)
  qed
  from performance_loop_spec [OF this, of self]
  have "\<exists>res. orcamento_performance d self hoje = Inr res
     \<and> map (\<lambda>r. (perf_limite r, perf_gasto r, disponivel r, perf_percentual r, status r)) res
       = map (\<lambda>orc. (py_float (dec (limite orc)),
                      py_float (dec (sum_list (map valor (gasto_rows d (an_usuario self) orc)))),
                      py_float (dec (limite orc
                         - sum_list (map valor (gasto_rows d (an_usuario self) orc)))),
                      py_round (percentual_binario d (an_usuario self) orc) 2,
                      status_orcamento (percentual_binario d (an_usuario self) orc))) ?orcs"
    unfolding orcamento_performance_def .
  moreover have "\<forall>orc. limite orc \<le> 0 \<longrightarrow> percentual_binario d (an_usuario self) orc = 0"
    by (simp add: percentual_binario_def)
  moreover have "\<forall>orc. 0 < limite orc \<longrightarrow> percentual_binario d (an_usuario self) orc
          = fmul (py_float
              (py_float (dec (sum_list (map valor (gasto_rows d (an_usuario self) orc))))
                 / py_float (dec (limite orc)))) 100"
    by (simp add: percentual_binario_def fmul_def)
  ultimately show ?thesis
    using status_orcamento_cases by blast
qed

theorem orcamento_performance_spec_witness:
  "\<exists>res. orcamento_performance ex_db_orc ex_an (2026, 11, 4) = Inr res
     \<and> map (\<lambda>r. (perf_limite r, perf_gasto r, disponivel r, perf_percentual r, status r)) res
       = [(200, 210, - 10, 105, ''excedido''), (50, 50, 0, 100, ''excedido'')]"
proof -
  have fk: "\<forall>orc \<in> set (orcamentos ex_db_orc).
     \<exists>cat \<in> set (categorias ex_db_orc). categoria_id cat = orcamento_categoria orc"
    by (simp add: ex_db_orc_def ex_orcamento_food_def ex_orcamento_fun_def
        ex_categoria_food_def ex_categoria_fun_def)
  from orcamento_performance_spec [OF fk, of ex_an "(2026, 11, 4)"]
  obtain res where res: "orcamento_performance ex_db_orc ex_an (2026, 11, 4) = Inr res"
    and sp: "map (\<lambda>r. (perf_limite r, perf_gasto r, disponivel r, perf_percentual r, status r)) res
       = map (\<lambda>orc. (py_float (dec (limite orc)),
                      py_float (dec (sum_list (map valor (gasto_rows ex_db_orc (an_usuario ex_an) orc)))),
                      py_float (dec (limite orc
                         - sum_list (map valor (gasto_rows ex_db_orc (an_usuario ex_an) orc)))),
                      py_round (percentual_binario ex_db_orc (an_usuario ex_an) orc) 2,
                      status_orcamento (percentual_binario ex_db_orc (an_usuario ex_an) orc)))
           (orcamentos_do_mes ex_db_orc (an_usuario ex_an) (2026, 11, 4))"
    by blast
  have orcs: "orcamentos_do_mes ex_db_orc (an_usuario ex_an) (2026, 11, 4)
      = [ex_orcamento_food, ex_orcamento_fun]"
    by code_simp
  have g: "sum_list (map valor (gasto_rows ex_db_orc (an_usuario ex_an) ex_orcamento_food)) = 21000"
    "sum_list (map valor (gasto_rows ex_db_orc (an_usuario ex_an) ex_orcamento_fun)) = 5000"
    by code_simp+
  have p: "percentual_binario ex_db_orc (an_usuario ex_an) ex_orcamento_food = 105"
    "percentual_binario ex_db_orc (an_usuario ex_an) ex_orcamento_fun = 100"
    by code_simp+
  have l: "limite ex_orcamento_food = 20000" "limite ex_orcamento_fun = 5000"
    by (simp_all add: ex_orcamento_food_def ex_orcamento_fun_def)
  have f: "py_float (dec 20000) = 200" "py_float (dec 21000) = 210"
    "py_float (dec (20000 - 21000)) = - 10" "py_float (dec 5000) = 50"
    "py_float (dec (5000 - 5000)) = 0" "py_round 105 2 = 105" "py_round 100 2 = 100"
    by code_simp+
  have s: "status_orcamento 105 = ''excedido''" "status_orcamento 100 = ''excedido''"
    by (simp_all add: status_orcamento_def)
  have ev: "map (\<lambda>orc. (py_float (dec (limite orc)),
                      py_float (dec (sum_list (map valor (gasto_rows ex_db_orc (an_usuario ex_an) orc)))),
                      py_float (dec (limite orc
                         - sum_list (map valor (gasto_rows ex_db_orc (an_usuario ex_an) orc)))),
                      py_round (percentual_binario ex_db_orc (an_usuario ex_an) orc) 2,
                      status_orcamento (percentual_binario ex_db_orc (an_usuario ex_an) orc)))
           (orcamentos_do_mes ex_db_orc (an_usuario ex_an) (2026, 11, 4))
       = [(200, 210, - 10, 105, ''excedido''), (50, 50, 0, 100, ''excedido'')]"
    by (simp only: orcs list.map g p l f s)
  show ?thesis
    by (rule exI [of _ res]) (simp only: res sp ev simp_thms)
qed

text \<open>
  C6, as stated, fails where rounding crosses a threshold.  With a limit of 300.00 and
  209.99 spent the percentage is 69.9966..., so the status is \<open>normal\<close>, while the
  percentage that is returned is the rounded 70.0: the returned percentage is not
  spent / limit * 100, and a returned percentage of 70 comes with the status of the
  range below 70.
\<close>

theorem orcamento_performance_rounded_counterexample:
  "orcamento_performance ex_db_7000 ex_an (2026, 11, 4) = Inr
     [\<lparr>perf_categoria = ''Food'', perf_icone = ''$'', perf_limite = 300,
       perf_gasto = py_float (20999 / 100), disponivel = py_float (9001 / 100),
       perf_percentual = 70, status = ''normal''\<rparr>]
   \<and> (20999 / 100) / 300 * 100 \<noteq> (70 :: rat)"
  by code_simp

text \<open>
  The percentage is the one of binary floating point, not the exact quotient: with a
  limit of 100.40 and 90.36 spent, exactly 90 percent, the computed percentage is
  89.99999999999999 and the status is \<open>atencao\<close>.
\<close>

lemma orcamento_performance_binario:
  "percentual_binario ex_db_9036 1 ex_orcamento_10040 = 6333186975989759 / 70368744177664
   \<and> percentual_spec ex_db_9036 1 ex_orcamento_10040 = 90
   \<and> map status (projr (orcamento_performance ex_db_9036 ex_an (2026, 11, 4))) = [''atencao'']"
  by code_simp

text \<open>
  The rounding to two decimals starts from the float as well: 0.47 of a limit of 0.32
  is 146.875 exactly, which would round to 146.88, but the computed percentage is
  146.87499999999997 and 146.87 is returned.
\<close>

lemma percentual_float_arredondado:
  "percentual_float 47 32 = Inr (5167704650547199 / 35184372088832)
   \<and> py_round (5167704650547199 / 35184372088832) 2 = py_float (14687 / 100)
   \<and> dec 47 / dec 32 * 100 = 146875 / 1000
   \<and> py_float (14687 / 100) < py_float (14688 / 100)"
  by code_simp

section \<open>Spending trend\<close>












text \<open>
  On the sequences of these examples the two summation algorithms agree, and the
  variation of 21.00 and 22.05 is the float just above 5.
\<close>

lemma tendencia_gastos_soma_compensada:
  "soma_compensada [py_float 21, py_float (2205 / 100)]
     = soma_sequencial [py_float 21, py_float (2205 / 100)]
   \<and> soma_compensada [- 10, 10] = soma_sequencial [- 10, 10]
   \<and> soma_compensada [100, 60, 100] = soma_sequencial [100, 60, 100]
   \<and> variacao_float (py_float 21) (py_float (2205 / 100))
     = 5629499534213123 / 1125899906842624"
  by code_simp

section \<open>Ownership of the referenced account and category\<close>

lemma Conta_get_alheia:
  assumes "distinct (map conta_id (contas d))" and "c \<in> set (contas d)"
    and "conta_usuario c \<noteq> u"
  shows "Conta_get d (conta_id c) u = Inl DoesNotExist"
  using filter_key_unique [OF assms(1,2), of "\<lambda>x. conta_usuario x = u"] assms(3)
  by (simp add: Conta_get_def)

lemma Categoria_get_alheia:
  assumes "distinct (map categoria_id (categorias d))" and "c \<in> set (categorias d)"
    and "categoria_usuario c \<noteq> u"
  shows "Categoria_get d (categoria_id c) u = Inl DoesNotExist"
  using filter_key_unique [OF assms(1,2), of "\<lambda>x. categoria_usuario x = u"] assms(3)
  by (simp add: Categoria_get_def)

lemma get_conta_field_alheia:
  assumes "distinct (map conta_id (contas d))" and "conta_alheia d f u"
  shows "get_conta_field d f u = Inl DoesNotExist"
  using assms Conta_get_alheia [OF assms(1)]
  by (auto simp: conta_alheia_def get_conta_field_def)

lemma get_categoria_field_alheia:
  assumes "distinct (map categoria_id (categorias d))" and "categoria_alheia d f u"
  shows "get_categoria_field d f u = Inl DoesNotExist"
  using assms Categoria_get_alheia [OF assms(1)]
  by (auto simp: categoria_alheia_def get_categoria_field_def)

lemma perform_create_alheia:
  assumes "conta_usuario (cd_conta vd) \<noteq> user
       \<or> (\<exists>cat. cd_categoria vd = Some cat \<and> categoria_usuario cat \<noteq> user)"
  shows "perform_create d user vd = (Inl PermissionDenied, d)"
  using assms
  by (auto simp: perform_create_def validate_related_objects_def split: option.splits)

lemma perform_update_alheia:
  assumes "conta_usuario (or_else (ud_conta (validated_data ser)) (inst_conta (ser_instance ser)))
         \<noteq> user
       \<or> (\<exists>cat. ud_categoria (validated_data ser) = Some (Some cat)
            \<and> categoria_usuario cat \<noteq> user)"
  shows "perform_update d user ser = (Inl PermissionDenied, d)"
  using assms
  by (auto simp: perform_update_def validate_related_objects_def Let_def split: option.splits)

lemmas ex_defs = ex_db_def ex_conta_a_def ex_conta_b_def ex_conta_c_def ex_categoria_food_def
  ex_categoria_other_def ex_request_def ex_form_receita_def ex_form_despesa_def
  ex_form_despesa_b_def ex_form_alheia_def ex_db_cheia_def ex_form_centavo_def
  ex_transacao_centavo_def ex_create_centavo_def ex_create_alheia_def ex_update_def ex_form_def

lemmas view_defs = transacao_criar_def transacao_editar_def transacao_deletar_def
  get_conta_field_def get_categoria_field_def Conta_get_def Categoria_get_def Decimal_def
  form_fields_def Transacao_create_def Transacao_save_def Transacao_delete_def Transacao_get_def
  prep_transacao_def Conta_save_def Conta_of_def fits_12_2_def Let_def

lemmas api_defs = perform_create_def perform_update_def perform_destroy_def
  validate_related_objects_def aplicar_saldo_def Conta_save_saldo_def serializer_save_def
  atomic_def or_else_def get_object_def Categoria_of_def

lemma ex_db_criada_eq:
  "ex_db_criada = \<lparr>contas = [ex_conta_a\<lparr>saldo := 15000\<rparr>, ex_conta_b, ex_conta_c],
     categorias = [ex_categoria_food, ex_categoria_other],
     transacoes = [\<lparr>transacao_id = 1, transacao_usuario = 1, transacao_conta = 1,
       transacao_categoria = Some 1, descricao = ''t'', valor = 5000, tipo = ''receita'',
       data = (2026, 11, 4), observacoes = [], recorrente = False\<rparr>],
     orcamentos = [], transacao_seq = 2\<rparr>"
  by (simp add: ex_db_criada_def ex_defs view_defs)

lemma Conta_get_casos:
  assumes "distinct (map conta_id (contas d))"
  shows "Conta_get d i u = Inl DoesNotExist \<or> (\<exists>c. Conta_get d i u = Inr c)"
proof (cases "\<exists>c \<in> set (contas d). conta_id c = i")
  case True
  then obtain c where c: "c \<in> set (contas d)" "conta_id c = i" by blast
  from filter_key_unique [OF assms c(1), of "\<lambda>x. conta_usuario x = u"] c(2)
  show ?thesis by (auto simp: Conta_get_def)
next
  case False
  then have "filter (\<lambda>c. conta_id c = i \<and> conta_usuario c = u) (contas d) = []"
    by (auto simp: filter_empty_conv)
  then show ?thesis by (simp add: Conta_get_def)
qed

lemma get_conta_field_casos:
  assumes "distinct (map conta_id (contas d))"
  shows "get_conta_field d f u = Inl (if f = Malformed then ValueError else DoesNotExist)
     \<or> (f \<noteq> Malformed \<and> (\<exists>c. get_conta_field d f u = Inr c))"
  using Conta_get_casos [OF assms]
  by (cases f) (auto simp: get_conta_field_def)

lemma transacao_criar_alheia:
  assumes "distinct (map conta_id (contas d))"
    and "distinct (map categoria_id (categorias d))"
    and "req_method request = ''POST''"
    and "conta_alheia d (f_conta (req_POST request)) (req_user request)
       \<or> categoria_alheia d (f_categoria (req_POST request)) (req_user request)"
  shows "transacao_criar d request
     = (d, [Msg_error (if f_conta (req_POST request) = Malformed then ValueError
                       else DoesNotExist)],
        Render ''budget/transacao_form.html'')"
proof (cases "conta_alheia d (f_conta (req_POST request)) (req_user request)")
  case True
  then have "f_conta (req_POST request) \<noteq> Malformed"
    by (auto simp: conta_alheia_def)
  with get_conta_field_alheia [OF assms(1) True] show ?thesis
    by (simp add: transacao_criar_def assms(3))
next
  case False
  with assms(4) have "categoria_alheia d (f_categoria (req_POST request)) (req_user request)"
    by simp
  from get_categoria_field_alheia [OF assms(2) this]
    get_conta_field_casos [OF assms(1), of "f_conta (req_POST request)" "req_user request"]
  show ?thesis
    by (auto simp: transacao_criar_def assms(3))
qed

lemma transacao_editar_alheia:
  assumes "distinct (map conta_id (contas d))"
    and "distinct (map categoria_id (categorias d))"
    and "req_method request = ''POST''"
    and "conta_alheia d (f_conta (req_POST request)) (req_user request)
       \<or> categoria_alheia d (f_categoria (req_POST request)) (req_user request)"
    and "Transacao_get d i (req_user request) = Inr t"
    and "Conta_of d (transacao_conta t) = Inr c"
  shows "transacao_editar d request i
     = Inr (d, [Msg_error (if f_conta (req_POST request) = Malformed then ValueError
                           else DoesNotExist)],
            Render ''budget/transacao_form.html'')"
proof (cases "conta_alheia d (f_conta (req_POST request)) (req_user request)")
  case True
  then have "f_conta (req_POST request) \<noteq> Malformed"
    by (auto simp: conta_alheia_def)
  with get_conta_field_alheia [OF assms(1) True] show ?thesis
    by (simp add: transacao_editar_def assms(3,5,6) Let_def)
next
  case False
  with assms(4) have "categoria_alheia d (f_categoria (req_POST request)) (req_user request)"
    by simp
  from get_categoria_field_alheia [OF assms(2) this]
    get_conta_field_casos [OF assms(1), of "f_conta (req_POST request)" "req_user request"]
  show ?thesis
    by (auto simp: transacao_editar_def assms(3,5,6) Let_def)
qed

text \<open>
  C5, as amended.  A request to create or update a transaction that references an
  account or a category of another user is refused and changes nothing: no transaction
  is created or changed and no balance is written.  In the API \<open>perform_create\<close> and
  \<open>perform_update\<close> raise the authorization error \<open>PermissionDenied\<close> before any
  write.  The form views raise no authorization error: the account and the category are
  looked up among the rows of the requesting user, the lookup raises \<open>DoesNotExist\<close>,
  and the view reports that error in a message and shows the form again with the
  database as it was.  The reported error is \<open>ValueError\<close> instead when the category
  is another user's and the account field is not a number.  For \<open>transacao_editar\<close>
  this is the answer when the transaction to edit and its account exist.  The hypotheses
  are the primary keys of the two tables.
\<close>

theorem referencia_alheia_recusada:
  assumes "distinct (map conta_id (contas d))"
    and "distinct (map categoria_id (categorias d))"
  shows "(conta_usuario (cd_conta vd) \<noteq> user
          \<or> (\<exists>cat. cd_categoria vd = Some cat \<and> categoria_usuario cat \<noteq> user)
        \<longrightarrow> perform_create d user vd = (Inl PermissionDenied, d))
    \<and> (conta_usuario (or_else (ud_conta (validated_data ser)) (inst_conta (ser_instance ser)))
            \<noteq> user
          \<or> (\<exists>cat. ud_categoria (validated_data ser) = Some (Some cat)
                \<and> categoria_usuario cat \<noteq> user)
        \<longrightarrow> perform_update d user ser = (Inl PermissionDenied, d))
    \<and> (req_method request = ''POST''
          \<and> (conta_alheia d (f_conta (req_POST request)) (req_user request)
             \<or> categoria_alheia d (f_categoria (req_POST request)) (req_user request))
        \<longrightarrow> transacao_criar d request
              = (d, [Msg_error (if f_conta (req_POST request) = Malformed then ValueError
                                else DoesNotExist)],
                 Render ''budget/transacao_form.html'')
          \<and> (\<forall>t c. Transacao_get d i (req_user request) = Inr t
                  \<and> Conta_of d (transacao_conta t) = Inr c
                \<longrightarrow> transacao_editar d request i
                  = Inr (d, [Msg_error (if f_conta (req_POST request) = Malformed
                                        then ValueError else DoesNotExist)],
                         Render ''budget/transacao_form.html'')))"
proof (intro conjI impI allI)
  assume "conta_usuario (cd_conta vd) \<noteq> user
          \<or> (\<exists>cat. cd_categoria vd = Some cat \<and> categoria_usuario cat \<noteq> user)"
  then show "perform_create d user vd = (Inl PermissionDenied, d)"
    by (rule perform_create_alheia)
next
  assume "conta_usuario (or_else (ud_conta (validated_data ser)) (inst_conta (ser_instance ser)))
            \<noteq> user
          \<or> (\<exists>cat. ud_categoria (validated_data ser) = Some (Some cat)
                \<and> categoria_usuario cat \<noteq> user)"
  then show "perform_update d user ser = (Inl PermissionDenied, d)"
    by (rule perform_update_alheia)
next
  assume h: "req_method request = ''POST''
          \<and> (conta_alheia d (f_conta (req_POST request)) (req_user request)
             \<or> categoria_alheia d (f_categoria (req_POST request)) (req_user request))"
  then have p: "req_method request = ''POST''"
    and a: "conta_alheia d (f_conta (req_POST request)) (req_user request)
             \<or> categoria_alheia d (f_categoria (req_POST request)) (req_user request)"
    by simp_all
  show "transacao_criar d request
      = (d, [Msg_error (if f_conta (req_POST request) = Malformed then ValueError
                        else DoesNotExist)],
         Render ''budget/transacao_form.html'')"
    by (rule transacao_criar_alheia [OF assms p a])
  fix t c
  assume "Transacao_get d i (req_user request) = Inr t
      \<and> Conta_of d (transacao_conta t) = Inr c"
  then have t: "Transacao_get d i (req_user request) = Inr t"
    and c: "Conta_of d (transacao_conta t) = Inr c"
    by simp_all
  show "transacao_editar d request i
      = Inr (d, [Msg_error (if f_conta (req_POST request) = Malformed
                            then ValueError else DoesNotExist)],
             Render ''budget/transacao_form.html'')"
    by (rule transacao_editar_alheia [OF assms p a t c])
qed

theorem referencia_alheia_recusada_witness:
  "perform_create ex_db_cheia 1 ex_create_alheia = (Inl PermissionDenied, ex_db_cheia)
   \<and> perform_update ex_db_criada 1
        \<lparr>ser_instance = \<lparr>inst_row = hd (transacoes ex_db_criada),
            inst_conta = ex_conta_a\<lparr>saldo := 15000\<rparr>, inst_categoria = Some ex_categoria_food\<rparr>,
         validated_data = ex_update (Some ex_conta_c)\<rparr>
       = (Inl PermissionDenied, ex_db_criada)
   \<and> transacao_criar ex_db_criada (ex_request ex_form_alheia)
       = (ex_db_criada, [Msg_error DoesNotExist], Render ''budget/transacao_form.html'')
   \<and> transacao_editar ex_db_criada (ex_request ex_form_alheia) 1
       = Inr (ex_db_criada, [Msg_error DoesNotExist], Render ''budget/transacao_form.html'')"
proof -
  have d1: "distinct (map conta_id (contas ex_db_cheia))"
    "distinct (map categoria_id (categorias ex_db_cheia))"
    by (simp_all add: ex_defs)
  have d2: "distinct (map conta_id (contas ex_db_criada))"
    "distinct (map categoria_id (categorias ex_db_criada))"
    unfolding ex_db_criada_eq by (simp_all add: ex_defs)
  have a: "conta_usuario (cd_conta ex_create_alheia) \<noteq> 1"
    by (simp add: ex_defs)
  have b: "conta_usuario (or_else (ud_conta (ex_update (Some ex_conta_c))) c) \<noteq> 1" for c
    by (simp add: ex_defs or_else_def)
  have c: "req_method (ex_request ex_form_alheia) = ''POST''"
    "conta_alheia ex_db_criada (f_conta (req_POST (ex_request ex_form_alheia)))
       (req_user (ex_request ex_form_alheia))"
    unfolding ex_db_criada_eq by (simp_all add: ex_defs conta_alheia_def)
  have t: "Transacao_get ex_db_criada 1 (req_user (ex_request ex_form_alheia))
      = Inr (hd (transacoes ex_db_criada))"
    unfolding ex_db_criada_eq by (simp add: ex_defs Transacao_get_def)
  have co: "Conta_of ex_db_criada (transacao_conta (hd (transacoes ex_db_criada)))
      = Inr (ex_conta_a\<lparr>saldo := 15000\<rparr>)"
    unfolding ex_db_criada_eq by (simp add: ex_defs Conta_of_def)
  have m: "f_conta (req_POST (ex_request ex_form_alheia)) \<noteq> Malformed"
    by (simp add: ex_defs)
  note th1 = referencia_alheia_recusada [OF d1, of ex_create_alheia 1]
  note th2 = referencia_alheia_recusada [OF d2, where user = 1 and request = "ex_request ex_form_alheia"
      and i = 1 and ser = "\<lparr>ser_instance = \<lparr>inst_row = hd (transacoes ex_db_criada),
            inst_conta = ex_conta_a\<lparr>saldo := 15000\<rparr>, inst_categoria = Some ex_categoria_food\<rparr>,
         validated_data = ex_update (Some ex_conta_c)\<rparr>"]
  have p1: "perform_create ex_db_cheia 1 ex_create_alheia = (Inl PermissionDenied, ex_db_cheia)"
    using th1 a by blast
  have p2: "perform_update ex_db_criada 1
        \<lparr>ser_instance = \<lparr>inst_row = hd (transacoes ex_db_criada),
            inst_conta = ex_conta_a\<lparr>saldo := 15000\<rparr>, inst_categoria = Some ex_categoria_food\<rparr>,
         validated_data = ex_update (Some ex_conta_c)\<rparr>
       = (Inl PermissionDenied, ex_db_criada)"
    using th2 b by simp
  have p3: "transacao_criar ex_db_criada (ex_request ex_form_alheia)
       = (ex_db_criada, [Msg_error DoesNotExist], Render ''budget/transacao_form.html'')"
    using th2 c m by simp
  have p4: "transacao_editar ex_db_criada (ex_request ex_form_alheia) 1
       = Inr (ex_db_criada, [Msg_error DoesNotExist], Render ''budget/transacao_form.html'')"
    using th2 c m t co by simp
  show ?thesis using p1 p2 p3 p4 by simp
qed

text \<open>
  C5, as stated, fails for the form views: they answer a reference to another user's
  row with \<open>DoesNotExist\<close>, the error of a row that does not exist, not with an
  authorization error, and with \<open>ValueError\<close> when the account field is not a
  number.  User 1 posts an income on account 3, which belongs to user 2, and then an
  income in category 2, which belongs to user 2, with a malformed account field.
\<close>

theorem referencia_alheia_counterexample:
  "transacao_criar ex_db_criada (ex_request ex_form_alheia)
       = (ex_db_criada, [Msg_error DoesNotExist], Render ''budget/transacao_form.html'')
   \<and> transacao_editar ex_db_criada (ex_request ex_form_alheia) 1
       = Inr (ex_db_criada, [Msg_error DoesNotExist], Render ''budget/transacao_form.html'')
   \<and> transacao_criar ex_db_criada (ex_request ex_form_malformada)
       = (ex_db_criada, [Msg_error ValueError], Render ''budget/transacao_form.html'')
   \<and> f_conta ex_form_alheia = Val (conta_id ex_conta_c)
   \<and> ex_conta_c \<in> set (contas ex_db_criada) \<and> conta_usuario ex_conta_c \<noteq> 1
   \<and> f_categoria ex_form_malformada = Val (categoria_id ex_categoria_other)
   \<and> ex_categoria_other \<in> set (categorias ex_db_criada)
   \<and> categoria_usuario ex_categoria_other \<noteq> 1
   \<and> DoesNotExist \<noteq> PermissionDenied \<and> ValueError \<noteq> PermissionDenied"
  unfolding ex_db_criada_eq
  by (simp add: ex_defs ex_form_malformada_def view_defs)

section \<open>The balance update of the API\<close>

lemma aplicar_saldo_delta:
  assumes "aplicar_saldo d conta v tp reverter = (Inr conta1, d1)"
  shows "saldo conta1 = saldo conta
           + (if tp = ''receita'' then (if reverter then - v else v)
              else (if reverter then v else - v))
       \<and> contas d1 = map (\<lambda>x. if conta_id x = conta_id conta then x\<lparr>saldo := saldo conta1\<rparr> else x)
           (contas d)
       \<and> transacoes d1 = transacoes d"
  using assms
  by (auto simp: aplicar_saldo_def Conta_save_saldo_def Let_def split: if_splits)

lemma atomic_rollback:
  "fst (atomic body d) = Inl e \<Longrightarrow> snd (atomic body d) = d"
  by (auto simp: atomic_def split: prod.splits sum.splits)

lemma perform_atomic:
  "fst (perform_create d user vd) = Inl e \<Longrightarrow> snd (perform_create d user vd) = d"
  "fst (perform_update d user ser) = Inl e \<Longrightarrow> snd (perform_update d user ser) = d"
  "fst (perform_destroy d inst) = Inl e \<Longrightarrow> snd (perform_destroy d inst) = d"
  by (auto simp: perform_create_def perform_update_def perform_destroy_def Let_def
      dest: atomic_rollback split: sum.splits)

text \<open>
  \<open>perform_update\<close> saves the reverted balance through the instance's account object
  and then applies the new amount through \<open>transacao.conta\<close>.  When the request
  leaves the account key out, that is the same object, and the edit of the income of
  50.00 into an expense of 20.00 brings account 1 from 150.00 to 80.00.  When the
  request carries the key of the same account, it is the object validation read before
  the reversal, still at 150.00, and the result is 130.00.
\<close>

lemma ex_get_object:
  "get_object ex_db_criada 1 1 = Inr \<lparr>inst_row = hd (transacoes ex_db_criada),
     inst_conta = ex_conta_a\<lparr>saldo := 15000\<rparr>, inst_categoria = Some ex_categoria_food\<rparr>"
  unfolding ex_db_criada_eq
  by (simp add: ex_defs api_defs Transacao_get_def Conta_of_def)

lemma perform_update_sem_conta:
  "saldo_de (snd (perform_update ex_db_criada 1
      \<lparr>ser_instance = \<lparr>inst_row = hd (transacoes ex_db_criada),
          inst_conta = ex_conta_a\<lparr>saldo := 15000\<rparr>, inst_categoria = Some ex_categoria_food\<rparr>,
       validated_data = ex_update None\<rparr>)) 1 = 8000"
  unfolding ex_db_criada_eq
  by (simp add: ex_defs api_defs view_defs saldo_de_def)

lemma perform_update_com_conta:
  "saldo_de (snd (perform_update ex_db_criada 1
      \<lparr>ser_instance = \<lparr>inst_row = hd (transacoes ex_db_criada),
          inst_conta = ex_conta_a\<lparr>saldo := 15000\<rparr>, inst_categoria = Some ex_categoria_food\<rparr>,
       validated_data = ex_update (Some (ex_conta_a\<lparr>saldo := 15000\<rparr>))\<rparr>)) 1 = 13000"
  unfolding ex_db_criada_eq
  by (simp add: ex_defs api_defs view_defs saldo_de_def)

section \<open>The balance after an edit through the form view\<close>

text \<open>
  \<open>transacao_editar\<close> takes the old amount back on the account object of the
  transaction (\<open>conta_anterior\<close> in the model) and then reads the account named in
  the form afresh from the database.  The object with the reverted balance is never
  saved, so the new amount is applied on top of a balance that still holds the old one.
  The theorems of this section run the view on \<open>ex_db_criada\<close>: account 1 started at
  100.00 and holds 150.00 after the income of 50.00 was created.
\<close>

lemma Conta_get_in_set:
  "Conta_get d i u = Inr c \<Longrightarrow> c \<in> set (contas d)"
proof -
  assume a: "Conta_get d i u = Inr c"
  then have "filter (\<lambda>c. conta_id c = i \<and> conta_usuario c = u) (contas d) = [c]"
    by (auto simp: Conta_get_def split: list.splits)
  then have "c \<in> set (filter (\<lambda>c. conta_id c = i \<and> conta_usuario c = u) (contas d))"
    by simp
  then show ?thesis by simp
qed

lemma Conta_save_row:
  assumes "c \<in> set (contas d)" and "conta_id c' = conta_id c"
    and "Conta_save d c' = (Inr u, d')"
  shows "d' = d\<lparr>contas := map (\<lambda>x. if conta_id x = conta_id c then c' else x) (contas d)\<rparr>"
  using assms by (auto simp: Conta_save_def split: if_splits)

text \<open>
  In general: whenever the form edit succeeds, the only account row that is written is
  the one named in the form, and it receives its balance as read from the database plus
  the new signed amount.  The old amount is taken back nowhere.
\<close>

lemma transacao_editar_contas:
  assumes "transacao_editar d request i = Inr (d', [Msg_success], r)"
  shows "\<exists>nova t'. get_conta_field d (f_conta (req_POST request)) (req_user request) = Inr nova
     \<and> transacoes d' = map (\<lambda>x. if transacao_id x = i then t' else x) (transacoes d)
     \<and> contas d' = map (\<lambda>x. if conta_id x = conta_id nova
                              then nova\<lparr>saldo := saldo nova + valor_com_sinal t'\<rparr> else x)
                      (contas d)"
proof -
  from assms obtain t where t: "Transacao_get d i (req_user request) = Inr t"
    by (auto simp: transacao_editar_def split: sum.splits)
  then have ti: "transacao_id t = i"
  proof -
    from t have "filter (\<lambda>t. transacao_id t = i \<and> transacao_usuario t = req_user request)
        (transacoes d) = [t]"
      by (auto simp: Transacao_get_def split: list.splits)
    then have "t \<in> set (filter (\<lambda>t. transacao_id t = i \<and> transacao_usuario t = req_user request)
        (transacoes d))" by simp
    then show ?thesis by simp
  qed
  have post: "req_method request = ''POST''"
  proof (rule ccontr)
    assume "req_method request \<noteq> ''POST''"
    with assms t show False by (simp add: transacao_editar_def)
  qed
  from assms t post
  have "\<exists>nova (cat :: categoria) v t' d1.
      get_conta_field d (f_conta (req_POST request)) (req_user request) = Inr nova
    \<and> Transacao_save d (transacao_id t)
                ((form_fields request (conta_id nova) (categoria_id cat) v)
                   \<lparr>tf_usuario := transacao_usuario t\<rparr>) = (Inr t', d1)
    \<and> Conta_save d1 (if tipo t' = ''receita''
                            then nova\<lparr>saldo := saldo nova + valor t'\<rparr>
                            else nova\<lparr>saldo := saldo nova - valor t'\<rparr>) = (Inr (), d')"
    by (simp add: transacao_editar_def Let_def split: sum.splits prod.splits split del: if_split)
      (intro exI conjI, assumption+)
  then obtain nova and cat :: categoria and v t' d1 where
    nova: "get_conta_field d (f_conta (req_POST request)) (req_user request) = Inr nova"
    and sv: "Transacao_save d (transacao_id t)
                ((form_fields request (conta_id nova) (categoria_id cat) v)
                   \<lparr>tf_usuario := transacao_usuario t\<rparr>) = (Inr t', d1)"
    and cs: "Conta_save d1 (if tipo t' = ''receita''
                            then nova\<lparr>saldo := saldo nova + valor t'\<rparr>
                            else nova\<lparr>saldo := saldo nova - valor t'\<rparr>) = (Inr (), d')"
    by (elim exE conjE)
  from sv have d1: "d1 = d\<lparr>transacoes := map (\<lambda>x. if transacao_id x = i then t' else x) (transacoes d)\<rparr>"
    by (auto simp: Transacao_save_def ti split: sum.splits)
  from nova have "nova \<in> set (contas d)"
    by (auto simp: get_conta_field_def split: field.splits dest: Conta_get_in_set)
  then have "nova \<in> set (contas d1)" by (simp add: d1)
  from Conta_save_row [OF this _ cs]
  have "d' = d1\<lparr>contas := map (\<lambda>x. if conta_id x = conta_id nova
       then (if tipo t' = ''receita''
                            then nova\<lparr>saldo := saldo nova + valor t'\<rparr>
                            else nova\<lparr>saldo := saldo nova - valor t'\<rparr>) else x) (contas d1)\<rparr>"
    by simp
  then show ?thesis
    using nova by (auto simp: d1 valor_com_sinal_def intro!: exI [of _ t'])
qed

text \<open>
  C2.  The first half of the claim holds of \<open>aplicar_saldo\<close> (lemma
  \<open>aplicar_saldo_delta\<close>).  The scenario does not come out as stated in the form
  views: from 100.00 the creation of the income of 50.00 gives 150.00, but the edit to an
  expense of 20.00 gives 130.00, not 80.00, and the deletion then gives 150.00, not
  100.00.
\<close>

theorem cenario_criar_editar_deletar:
  "saldo_de ex_db 1 = 10000 \<and> saldo_de ex_db_criada 1 = 15000
   \<and> (case transacao_editar ex_db_criada (ex_request ex_form_despesa) 1 of
        Inl _ \<Rightarrow> False
      | Inr (d, ms, r) \<Rightarrow> ms = [Msg_success] \<and> saldo_de d 1 = 13000
          \<and> (case transacao_deletar d (ex_request ex_form) 1 of
                (d', ms', r') \<Rightarrow> ms' = [Msg_success] \<and> transacoes d' = []
                  \<and> saldo_de d' 1 = 15000))"
  unfolding ex_db_criada_eq
  by (simp add: ex_defs view_defs saldo_de_def)

text \<open>
  C4.  An edit through the form view that changes no field does not leave the balance
  unchanged: the transaction is as before and the balance of its account goes from
  150.00 to 200.00, the income of 50.00 counted twice.
\<close>

theorem transacao_editar_sem_mudanca_saldo:
  "saldo_de ex_db_criada 1 = 15000
   \<and> (case transacao_editar ex_db_criada (ex_request ex_form_receita) 1 of
        Inl _ \<Rightarrow> False
      | Inr (d, ms, r) \<Rightarrow> ms = [Msg_success]
          \<and> transacoes d = transacoes ex_db_criada \<and> saldo_de d 1 = 20000)"
  unfolding ex_db_criada_eq
  by (simp add: ex_defs view_defs saldo_de_def)

text \<open>
  C1.  After the income of 50.00 on account 1 is edited into an expense of 20.00 on
  account 2, no transaction references account 1, whose initial balance was 100.00, yet
  its balance is 150.00; account 2, from 25.00, is at 5.00 as the claim requires.
\<close>

theorem transacao_editar_outra_conta_saldo:
  "(case transacao_editar ex_db_criada (ex_request ex_form_despesa_b) 1 of
      Inl _ \<Rightarrow> False
    | Inr (d, ms, r) \<Rightarrow> ms = [Msg_success]
        \<and> map transacao_conta (transacoes d) = [2]
        \<and> saldo_de d 1 = 15000 \<and> saldo_de ex_db 1 + soma_transacoes d 1 = 10000
        \<and> saldo_de d 2 = 500 \<and> saldo_de ex_db 2 + soma_transacoes d 2 = 500)"
  unfolding ex_db_criada_eq
  by (simp add: ex_defs view_defs saldo_de_def soma_transacoes_def valor_com_sinal_def)

section \<open>A failure between the two writes\<close>

text \<open>
  C3.  \<open>transacao_criar\<close> creates the transaction and then saves the balance with no
  atomic block around the two writes.  On an account at 9999999999.99 an income of 0.01
  is created, the new balance does not fit the column, \<open>conta.save()\<close> raises, and
  the view reports the error: the transaction stays in the database and the balance is
  as before.  The API's \<open>perform_create\<close>, which wraps the same two writes in
  \<open>transaction.atomic()\<close>, leaves the database unchanged on the same input.
\<close>

theorem transacao_criar_falha_parcial:
  "transacao_criar ex_db_cheia (ex_request ex_form_centavo) =
     (ex_db_cheia\<lparr>transacoes := [ex_transacao_centavo], transacao_seq := 2\<rparr>,
      [Msg_error InvalidOperation], Render ''budget/transacao_form.html'')
   \<and> perform_create ex_db_cheia 1 ex_create_centavo = (Inl InvalidOperation, ex_db_cheia)"
  by (simp add: ex_defs view_defs api_defs)

end
